theory Spec2Isabelle
  imports Main "HOL-Library.Sublist"
begin

section \<open>Request orchestration of the EAS SDK test helpers\<close>

text \<open>
  The development follows \<^verbatim>\<open>test/test/helpers/eas.ts\<close>: the four orchestrators
  \<^verbatim>\<open>expectAttestation\<close>, \<^verbatim>\<open>expectMultiAttestations\<close>, \<^verbatim>\<open>expectRevocation\<close> and
  \<^verbatim>\<open>expectMultiRevocations\<close>. Each of them reads its options, selects a signature
  style, talks to the SDK objects (the ledger interface, the delegated signer, the proxy,
  the offchain signer) and checks what comes back with chai expectations.

  Every call that leaves the helper is an \<^emph>\<open>event\<close>. A run starts from the list of the
  events so far and returns that list extended by the calls it made, together with either
  the error it raised or the value it returned. The answer of a collaborator may depend on
  everything that was called before, so a ledger whose nonce or whose attestations change
  over time is covered.
\<close>

subsection \<open>Values of the source\<close>

text \<open>The enum \<^verbatim>\<open>SignatureType\<close>.\<close>

datatype SignatureType = Direct | Delegated | DelegatedProxy | Offchain

text \<open>
  A \<^verbatim>\<open>BaseWallet\<close>; the helpers read its \<^verbatim>\<open>address\<close> and hand the wallet itself to
  the signers.
\<close>

record BaseWallet =
  address :: string

text \<open>
  A fee option is declared \<^verbatim>\<open>bigint | Promise<bigint>\<close>. A promise carries the number it
  will resolve to; the helpers never await it.
\<close>

datatype fee = FeeBigint int | FeePromise int

text \<open>The sentinel \<^verbatim>\<open>NO_EXPIRATION\<close>, declared as \<^verbatim>\<open>0\<close> in \<^verbatim>\<open>dist/eas.d.ts\<close>.\<close>

definition NO_EXPIRATION :: int where
  "NO_EXPIRATION = 0"

text \<open>
  Modelled from the spec: the constants \<^verbatim>\<open>ZERO_BYTES32\<close> and \<^verbatim>\<open>ZERO_BYTES\<close> of
  \<^verbatim>\<open>test/utils/Constants\<close>, which is not among the sources. The spec fixes them as
  "a defined all-zero identifier of fixed width" (32 bytes, as a hex string) and "empty
  byte sequence".
\<close>

definition ZERO_BYTES32 :: string where
  "ZERO_BYTES32 = ''0x'' @ replicate 64 CHR ''0''"

definition ZERO_BYTES :: string where
  "ZERO_BYTES = ''0x''"

text \<open>
  Modelled from the spec: \<^verbatim>\<open>OFFCHAIN_ATTESTATION_VERSION\<close> of \<^verbatim>\<open>src/offchain\<close> is not
  among the sources; it is the version tag that selects the encoding of an offchain UID.
  The spec does not give its value; no property below depends on the value taken here.
\<close>

definition OFFCHAIN_ATTESTATION_VERSION :: int where
  "OFFCHAIN_ATTESTATION_VERSION = 1"

subsection \<open>Request shapes\<close>

text \<open>
  \<^verbatim>\<open>AttestationRequestData\<close>: recipient and payload are required, the other four
  fields are optional (\<open>None\<close> is an omitted field).
\<close>

record AttestationRequestData =
  ard_recipient :: string
  ard_data :: string
  ard_expirationTime :: "int option"
  ard_revocable :: "bool option"
  ard_refUID :: "string option"
  ard_value :: "int option"

record AttestationRequest =
  ar_schema :: string
  ar_data :: AttestationRequestData

record Signature =
  sig_v :: nat
  sig_r :: string
  sig_s :: string

record DelegatedAttestationRequest =
  dar_schema :: string
  dar_data :: AttestationRequestData
  dar_signature :: Signature
  dar_attester :: string

record DelegatedProxyAttestationRequest =
  dpar_schema :: string
  dpar_data :: AttestationRequestData
  dpar_signature :: Signature
  dpar_attester :: string
  dpar_deadline :: int

record MultiAttestationRequest =
  mar_schema :: string
  mar_data :: "AttestationRequestData list"

record MultiDelegatedAttestationRequest =
  mdar_schema :: string
  mdar_data :: "AttestationRequestData list"
  mdar_signatures :: "Signature list"
  mdar_attester :: string

record MultiDelegatedProxyAttestationRequest =
  mdpar_schema :: string
  mdpar_data :: "AttestationRequestData list"
  mdpar_signatures :: "Signature list"
  mdpar_attester :: string
  mdpar_deadline :: int

record RevocationRequestData =
  rrd_uid :: string
  rrd_value :: "int option"

record RevocationRequest =
  rr_schema :: string
  rr_data :: RevocationRequestData

record DelegatedRevocationRequest =
  drr_schema :: string
  drr_data :: RevocationRequestData
  drr_signature :: Signature
  drr_revoker :: string

record DelegatedProxyRevocationRequest =
  dprr_schema :: string
  dprr_data :: RevocationRequestData
  dprr_signature :: Signature
  dprr_revoker :: string
  dprr_deadline :: int

record MultiRevocationRequest =
  mrr_schema :: string
  mrr_data :: "RevocationRequestData list"

record MultiDelegatedRevocationRequest =
  mdrr_schema :: string
  mdrr_data :: "RevocationRequestData list"
  mdrr_signatures :: "Signature list"
  mdrr_revoker :: string

record MultiDelegatedProxyRevocationRequest =
  mdprr_schema :: string
  mdprr_data :: "RevocationRequestData list"
  mdprr_signatures :: "Signature list"
  mdprr_revoker :: string
  mdprr_deadline :: int

text \<open>The parameter objects handed to the signers.\<close>

record EIP712AttestationParams =
  ap_schema :: string
  ap_recipient :: string
  ap_expirationTime :: int
  ap_revocable :: bool
  ap_refUID :: string
  ap_data :: string
  ap_nonce :: int

record EIP712AttestationProxyParams =
  app_schema :: string
  app_recipient :: string
  app_expirationTime :: int
  app_revocable :: bool
  app_refUID :: string
  app_data :: string
  app_deadline :: int

record EIP712RevocationParams =
  rp_schema :: string
  rp_uid :: string
  rp_nonce :: int

record EIP712RevocationProxyParams =
  rpp_schema :: string
  rpp_uid :: string
  rpp_deadline :: int

record OffchainAttestationParams =
  oa_version :: int
  oa_schema :: string
  oa_recipient :: string
  oa_time :: int
  oa_expirationTime :: int
  oa_revocable :: bool
  oa_refUID :: string
  oa_data :: string

text \<open>
  What a signer returns: \<^verbatim>\<open>EIP712Response<EIP712MessageTypes, P>\<close> holds the signed
  message and the signature; an offchain response holds the UID as well.
\<close>

record 'p EIP712Response =
  res_message :: 'p
  res_signature :: Signature

record SignedOffchainAttestation =
  soa_message :: OffchainAttestationParams
  soa_signature :: Signature
  soa_uid :: string

text \<open>The \<^verbatim>\<open>overrides\<close> object: both fees, each as the string \<^verbatim>\<open>toString()\<close> gave.\<close>

record Overrides =
  ov_maxPriorityFeePerGas :: string
  ov_maxFeePerGas :: string

text \<open>
  A \<^verbatim>\<open>Transaction<T>\<close>: the helpers read the two fee fields of its \<^verbatim>\<open>tx\<close> (each
  \<^verbatim>\<open>null | bigint\<close>) and call \<^verbatim>\<open>wait()\<close> on it.
\<close>

record Transaction =
  tx_hash :: string
  tx_maxPriorityFeePerGas :: "int option"
  tx_maxFeePerGas :: "int option"

text \<open>
  The options of a request. \<^verbatim>\<open>AttestationOptions\<close> adds \<^verbatim>\<open>bump\<close>, which no helper
  reads; \<^verbatim>\<open>RevocationOptions\<close> adds nothing.
\<close>

record RequestOptions =
  o_signatureType :: "SignatureType option"
  o_deadline :: "int option"
  o_from :: BaseWallet
  o_value :: "int option"
  o_maxPriorityFeePerGas :: "fee option"
  o_maxFeePerGas :: "fee option"

record AttestationOptions = RequestOptions +
  o_bump :: "int option"

type_synonym RevocationOptions = RequestOptions

text \<open>The SDK objects a helper obtains and calls methods on.\<close>

type_synonym DelegatedRef = nat
type_synonym ProxyRef = nat
type_synonym OffchainRef = nat

subsection \<open>Errors, events and runs\<close>

text \<open>
  \<open>Error\<close> is a \<^verbatim>\<open>throw new Error(message)\<close> of the helper, \<open>AssertionError\<close> a failed
  chai expectation, \<open>CallFailure\<close> an exception or rejected promise of a collaborator.
\<close>

datatype error = Error string | AssertionError | CallFailure string

text \<open>One constructor for each call that leaves the helper, with its arguments.\<close>

datatype event =
    Call_attest BaseWallet AttestationRequest "Overrides option"
  | Call_attestByDelegation BaseWallet DelegatedAttestationRequest "Overrides option"
  | Call_attestByDelegationProxy BaseWallet DelegatedProxyAttestationRequest "Overrides option"
  | Call_multiAttest BaseWallet "MultiAttestationRequest list"
  | Call_multiAttestByDelegation BaseWallet "MultiDelegatedAttestationRequest list"
      "Overrides option"
  | Call_multiAttestByDelegationProxy BaseWallet "MultiDelegatedProxyAttestationRequest list"
      "Overrides option"
  | Call_revoke BaseWallet RevocationRequest "Overrides option"
  | Call_revokeByDelegation BaseWallet DelegatedRevocationRequest "Overrides option"
  | Call_revokeByDelegationProxy BaseWallet DelegatedProxyRevocationRequest "Overrides option"
  | Call_multiRevoke BaseWallet "MultiRevocationRequest list"
  | Call_multiRevokeByDelegation BaseWallet "MultiDelegatedRevocationRequest list"
      "Overrides option"
  | Call_multiRevokeByDelegationProxy BaseWallet "MultiDelegatedProxyRevocationRequest list"
      "Overrides option"
  | Call_wait Transaction
  | Call_getNonce string
  | Call_isAttestationValid string
  | Call_isAttestationRevoked string
  | Call_getDelegated
  | Call_getEIP712Proxy
  | Call_getOffchain
  | Call_latest
  | Call_proxy_getDelegated ProxyRef
  | Call_proxy_getAttester ProxyRef string
  | Call_signDelegatedAttestation DelegatedRef EIP712AttestationParams BaseWallet
  | Call_verifyDelegatedAttestationSignature DelegatedRef string
      "EIP712AttestationParams EIP712Response"
  | Call_signDelegatedProxyAttestation DelegatedRef EIP712AttestationProxyParams BaseWallet
  | Call_verifyDelegatedProxyAttestationSignature DelegatedRef string
      "EIP712AttestationProxyParams EIP712Response"
  | Call_signDelegatedRevocation DelegatedRef EIP712RevocationParams BaseWallet
  | Call_verifyDelegatedRevocationSignature DelegatedRef string
      "EIP712RevocationParams EIP712Response"
  | Call_signDelegatedProxyRevocation DelegatedRef EIP712RevocationProxyParams BaseWallet
  | Call_verifyDelegatedProxyRevocationSignature DelegatedRef string
      "EIP712RevocationProxyParams EIP712Response"
  | Call_signOffchainAttestation OffchainRef OffchainAttestationParams BaseWallet
  | Call_verifyOffchainAttestationSignature OffchainRef string SignedOffchainAttestation

type_synonym history = "event list"

text \<open>
  The collaborators. Each field answers one kind of call, given the calls made before it;
  an answer is an error (the call threw or its promise was rejected) or a value.
  \<open>w_getOffchainUID\<close> is the imported function \<^verbatim>\<open>getOffchainUID\<close> of \<^verbatim>\<open>src/utils\<close>,
  which is not among the sources: it is called synchronously and is no event.
\<close>

record world =
  w_attest :: "history \<Rightarrow> BaseWallet \<Rightarrow> AttestationRequest \<Rightarrow> Overrides option
    \<Rightarrow> error + Transaction"
  w_attestByDelegation :: "history \<Rightarrow> BaseWallet \<Rightarrow> DelegatedAttestationRequest
    \<Rightarrow> Overrides option \<Rightarrow> error + Transaction"
  w_attestByDelegationProxy :: "history \<Rightarrow> BaseWallet \<Rightarrow> DelegatedProxyAttestationRequest
    \<Rightarrow> Overrides option \<Rightarrow> error + Transaction"
  w_multiAttest :: "history \<Rightarrow> BaseWallet \<Rightarrow> MultiAttestationRequest list
    \<Rightarrow> error + Transaction"
  w_multiAttestByDelegation :: "history \<Rightarrow> BaseWallet
    \<Rightarrow> MultiDelegatedAttestationRequest list \<Rightarrow> Overrides option \<Rightarrow> error + Transaction"
  w_multiAttestByDelegationProxy :: "history \<Rightarrow> BaseWallet
    \<Rightarrow> MultiDelegatedProxyAttestationRequest list \<Rightarrow> Overrides option
    \<Rightarrow> error + Transaction"
  w_revoke :: "history \<Rightarrow> BaseWallet \<Rightarrow> RevocationRequest \<Rightarrow> Overrides option
    \<Rightarrow> error + Transaction"
  w_revokeByDelegation :: "history \<Rightarrow> BaseWallet \<Rightarrow> DelegatedRevocationRequest
    \<Rightarrow> Overrides option \<Rightarrow> error + Transaction"
  w_revokeByDelegationProxy :: "history \<Rightarrow> BaseWallet \<Rightarrow> DelegatedProxyRevocationRequest
    \<Rightarrow> Overrides option \<Rightarrow> error + Transaction"
  w_multiRevoke :: "history \<Rightarrow> BaseWallet \<Rightarrow> MultiRevocationRequest list
    \<Rightarrow> error + Transaction"
  w_multiRevokeByDelegation :: "history \<Rightarrow> BaseWallet
    \<Rightarrow> MultiDelegatedRevocationRequest list \<Rightarrow> Overrides option \<Rightarrow> error + Transaction"
  w_multiRevokeByDelegationProxy :: "history \<Rightarrow> BaseWallet
    \<Rightarrow> MultiDelegatedProxyRevocationRequest list \<Rightarrow> Overrides option
    \<Rightarrow> error + Transaction"
  w_wait :: "history \<Rightarrow> Transaction \<Rightarrow> error + string"
  w_waitMulti :: "history \<Rightarrow> Transaction \<Rightarrow> error + string list"
  w_getNonce :: "history \<Rightarrow> string \<Rightarrow> error + int"
  w_isAttestationValid :: "history \<Rightarrow> string \<Rightarrow> error + bool"
  w_isAttestationRevoked :: "history \<Rightarrow> string \<Rightarrow> error + bool"
  w_getDelegated :: "history \<Rightarrow> error + DelegatedRef"
  w_getEIP712Proxy :: "history \<Rightarrow> error + ProxyRef option"
  w_getOffchain :: "history \<Rightarrow> error + OffchainRef"
  w_latest :: "history \<Rightarrow> error + int"
  w_proxy_getDelegated :: "history \<Rightarrow> ProxyRef \<Rightarrow> error + DelegatedRef"
  w_proxy_getAttester :: "history \<Rightarrow> ProxyRef \<Rightarrow> string \<Rightarrow> error + string"
  w_signDelegatedAttestation :: "history \<Rightarrow> DelegatedRef \<Rightarrow> EIP712AttestationParams
    \<Rightarrow> BaseWallet \<Rightarrow> error + EIP712AttestationParams EIP712Response"
  w_verifyDelegatedAttestationSignature :: "history \<Rightarrow> DelegatedRef \<Rightarrow> string
    \<Rightarrow> EIP712AttestationParams EIP712Response \<Rightarrow> error + bool"
  w_signDelegatedProxyAttestation :: "history \<Rightarrow> DelegatedRef
    \<Rightarrow> EIP712AttestationProxyParams \<Rightarrow> BaseWallet
    \<Rightarrow> error + EIP712AttestationProxyParams EIP712Response"
  w_verifyDelegatedProxyAttestationSignature :: "history \<Rightarrow> DelegatedRef \<Rightarrow> string
    \<Rightarrow> EIP712AttestationProxyParams EIP712Response \<Rightarrow> error + bool"
  w_signDelegatedRevocation :: "history \<Rightarrow> DelegatedRef \<Rightarrow> EIP712RevocationParams
    \<Rightarrow> BaseWallet \<Rightarrow> error + EIP712RevocationParams EIP712Response"
  w_verifyDelegatedRevocationSignature :: "history \<Rightarrow> DelegatedRef \<Rightarrow> string
    \<Rightarrow> EIP712RevocationParams EIP712Response \<Rightarrow> error + bool"
  w_signDelegatedProxyRevocation :: "history \<Rightarrow> DelegatedRef
    \<Rightarrow> EIP712RevocationProxyParams \<Rightarrow> BaseWallet
    \<Rightarrow> error + EIP712RevocationProxyParams EIP712Response"
  w_verifyDelegatedProxyRevocationSignature :: "history \<Rightarrow> DelegatedRef \<Rightarrow> string
    \<Rightarrow> EIP712RevocationProxyParams EIP712Response \<Rightarrow> error + bool"
  w_signOffchainAttestation :: "history \<Rightarrow> OffchainRef \<Rightarrow> OffchainAttestationParams
    \<Rightarrow> BaseWallet \<Rightarrow> error + SignedOffchainAttestation"
  w_verifyOffchainAttestationSignature :: "history \<Rightarrow> OffchainRef \<Rightarrow> string
    \<Rightarrow> SignedOffchainAttestation \<Rightarrow> error + bool"
  w_getOffchainUID :: "int \<Rightarrow> string \<Rightarrow> string \<Rightarrow> int \<Rightarrow> int \<Rightarrow> bool \<Rightarrow> string \<Rightarrow> string
    \<Rightarrow> error + string"

text \<open>
  A run: from the calls so far to the calls so far afterwards and the outcome.
  \<open>andThen\<close> is the sequencing of \<^verbatim>\<open>await\<close>ed statements: an error ends the run.
\<close>

type_synonym 'a run = "history \<Rightarrow> history \<times> (error + 'a)"

definition ret :: "'a \<Rightarrow> 'a run" where
  "ret x h = (h, Inr x)"

definition throw :: "error \<Rightarrow> 'a run" where
  "throw e h = (h, Inl e)"

definition andThen :: "'a run \<Rightarrow> ('a \<Rightarrow> 'b run) \<Rightarrow> 'b run" where
  "andThen m f h = (case m h of (h', Inl e) \<Rightarrow> (h', Inl e) | (h', Inr x) \<Rightarrow> f x h')"

definition perform :: "event \<Rightarrow> (history \<Rightarrow> error + 'a) \<Rightarrow> 'a run" where
  "perform ev answer h = (h @ [ev], answer h)"

text \<open>A synchronous call of an imported pure function: no event, but it may throw.\<close>

definition pure_call :: "error + 'a \<Rightarrow> 'a run" where
  "pure_call r h = (h, r)"

text \<open>\<^verbatim>\<open>expect(b).to.be.true\<close>.\<close>

definition expect_true :: "bool \<Rightarrow> unit run" where
  "expect_true b = (if b then ret () else throw AssertionError)"

text \<open>\<^verbatim>\<open>expect(a).to.equal(b)\<close>, chai's strict equality.\<close>

definition expect_equal :: "'a \<Rightarrow> 'a \<Rightarrow> unit run" where
  "expect_equal a b = (if a = b then ret () else throw AssertionError)"

subsection \<open>The calls\<close>

text \<open>
  Each call appends its event and returns what the collaborator answers after the calls
  made so far. \<^verbatim>\<open>eas.connect(txSender)\<close> is part of the submission calls: their first
  argument is the connected wallet. \<^verbatim>\<open>wait()\<close> of a \<^verbatim>\<open>Transaction<string>\<close> is
  \<open>wait\<close>, of a \<^verbatim>\<open>Transaction<string[]>\<close> it is \<open>waitMulti\<close>.
\<close>

named_theorems call_defs

definition attest ::
  "world \<Rightarrow> BaseWallet \<Rightarrow> AttestationRequest
    \<Rightarrow> Overrides option \<Rightarrow> Transaction run" where
  attest_def [call_defs]:
    "attest W sender req ov =
       perform (Call_attest sender req ov)
         (\<lambda>h. w_attest W h sender req ov)"

definition attestByDelegation ::
  "world \<Rightarrow> BaseWallet \<Rightarrow> DelegatedAttestationRequest
    \<Rightarrow> Overrides option \<Rightarrow> Transaction run" where
  attestByDelegation_def [call_defs]:
    "attestByDelegation W sender req ov =
       perform (Call_attestByDelegation sender req ov)
         (\<lambda>h. w_attestByDelegation W h sender req ov)"

definition attestByDelegationProxy ::
  "world \<Rightarrow> BaseWallet \<Rightarrow> DelegatedProxyAttestationRequest
    \<Rightarrow> Overrides option \<Rightarrow> Transaction run" where
  attestByDelegationProxy_def [call_defs]:
    "attestByDelegationProxy W sender req ov =
       perform (Call_attestByDelegationProxy sender req ov)
         (\<lambda>h. w_attestByDelegationProxy W h sender req ov)"

definition multiAttest ::
  "world \<Rightarrow> BaseWallet \<Rightarrow> MultiAttestationRequest list
    \<Rightarrow> Transaction run" where
  multiAttest_def [call_defs]:
    "multiAttest W sender reqs =
       perform (Call_multiAttest sender reqs)
         (\<lambda>h. w_multiAttest W h sender reqs)"

definition multiAttestByDelegation ::
  "world \<Rightarrow> BaseWallet \<Rightarrow> MultiDelegatedAttestationRequest list
    \<Rightarrow> Overrides option \<Rightarrow> Transaction run" where
  multiAttestByDelegation_def [call_defs]:
    "multiAttestByDelegation W sender reqs ov =
       perform (Call_multiAttestByDelegation sender reqs ov)
         (\<lambda>h. w_multiAttestByDelegation W h sender reqs ov)"

definition multiAttestByDelegationProxy ::
  "world \<Rightarrow> BaseWallet \<Rightarrow> MultiDelegatedProxyAttestationRequest list
    \<Rightarrow> Overrides option \<Rightarrow> Transaction run" where
  multiAttestByDelegationProxy_def [call_defs]:
    "multiAttestByDelegationProxy W sender reqs ov =
       perform (Call_multiAttestByDelegationProxy sender reqs ov)
         (\<lambda>h. w_multiAttestByDelegationProxy W h sender reqs ov)"

definition revoke ::
  "world \<Rightarrow> BaseWallet \<Rightarrow> RevocationRequest
    \<Rightarrow> Overrides option \<Rightarrow> Transaction run" where
  revoke_def [call_defs]:
    "revoke W sender req ov =
       perform (Call_revoke sender req ov)
         (\<lambda>h. w_revoke W h sender req ov)"

definition revokeByDelegation ::
  "world \<Rightarrow> BaseWallet \<Rightarrow> DelegatedRevocationRequest
    \<Rightarrow> Overrides option \<Rightarrow> Transaction run" where
  revokeByDelegation_def [call_defs]:
    "revokeByDelegation W sender req ov =
       perform (Call_revokeByDelegation sender req ov)
         (\<lambda>h. w_revokeByDelegation W h sender req ov)"

definition revokeByDelegationProxy ::
  "world \<Rightarrow> BaseWallet \<Rightarrow> DelegatedProxyRevocationRequest
    \<Rightarrow> Overrides option \<Rightarrow> Transaction run" where
  revokeByDelegationProxy_def [call_defs]:
    "revokeByDelegationProxy W sender req ov =
       perform (Call_revokeByDelegationProxy sender req ov)
         (\<lambda>h. w_revokeByDelegationProxy W h sender req ov)"

definition multiRevoke ::
  "world \<Rightarrow> BaseWallet \<Rightarrow> MultiRevocationRequest list
    \<Rightarrow> Transaction run" where
  multiRevoke_def [call_defs]:
    "multiRevoke W sender reqs =
       perform (Call_multiRevoke sender reqs)
         (\<lambda>h. w_multiRevoke W h sender reqs)"

definition multiRevokeByDelegation ::
  "world \<Rightarrow> BaseWallet \<Rightarrow> MultiDelegatedRevocationRequest list
    \<Rightarrow> Overrides option \<Rightarrow> Transaction run" where
  multiRevokeByDelegation_def [call_defs]:
    "multiRevokeByDelegation W sender reqs ov =
       perform (Call_multiRevokeByDelegation sender reqs ov)
         (\<lambda>h. w_multiRevokeByDelegation W h sender reqs ov)"

definition multiRevokeByDelegationProxy ::
  "world \<Rightarrow> BaseWallet \<Rightarrow> MultiDelegatedProxyRevocationRequest list
    \<Rightarrow> Overrides option \<Rightarrow> Transaction run" where
  multiRevokeByDelegationProxy_def [call_defs]:
    "multiRevokeByDelegationProxy W sender reqs ov =
       perform (Call_multiRevokeByDelegationProxy sender reqs ov)
         (\<lambda>h. w_multiRevokeByDelegationProxy W h sender reqs ov)"

definition wait ::
  "world \<Rightarrow> Transaction \<Rightarrow> string run" where
  wait_def [call_defs]:
    "wait W t =
       perform (Call_wait t)
         (\<lambda>h. w_wait W h t)"

definition waitMulti ::
  "world \<Rightarrow> Transaction \<Rightarrow> string list run" where
  waitMulti_def [call_defs]:
    "waitMulti W t =
       perform (Call_wait t)
         (\<lambda>h. w_waitMulti W h t)"

definition getNonce ::
  "world \<Rightarrow> string \<Rightarrow> int run" where
  getNonce_def [call_defs]:
    "getNonce W a =
       perform (Call_getNonce a)
         (\<lambda>h. w_getNonce W h a)"

definition isAttestationValid ::
  "world \<Rightarrow> string \<Rightarrow> bool run" where
  isAttestationValid_def [call_defs]:
    "isAttestationValid W u =
       perform (Call_isAttestationValid u)
         (\<lambda>h. w_isAttestationValid W h u)"

definition isAttestationRevoked ::
  "world \<Rightarrow> string \<Rightarrow> bool run" where
  isAttestationRevoked_def [call_defs]:
    "isAttestationRevoked W u =
       perform (Call_isAttestationRevoked u)
         (\<lambda>h. w_isAttestationRevoked W h u)"

definition getDelegated ::
  "world \<Rightarrow> DelegatedRef run" where
  getDelegated_def [call_defs]:
    "getDelegated W =
       perform (Call_getDelegated)
         (\<lambda>h. w_getDelegated W h)"

definition getEIP712Proxy ::
  "world \<Rightarrow> ProxyRef option run" where
  getEIP712Proxy_def [call_defs]:
    "getEIP712Proxy W =
       perform (Call_getEIP712Proxy)
         (\<lambda>h. w_getEIP712Proxy W h)"

definition getOffchain ::
  "world \<Rightarrow> OffchainRef run" where
  getOffchain_def [call_defs]:
    "getOffchain W =
       perform (Call_getOffchain)
         (\<lambda>h. w_getOffchain W h)"

definition latest ::
  "world \<Rightarrow> int run" where
  latest_def [call_defs]:
    "latest W =
       perform (Call_latest)
         (\<lambda>h. w_latest W h)"

definition proxy_getDelegated ::
  "world \<Rightarrow> ProxyRef \<Rightarrow> DelegatedRef run" where
  proxy_getDelegated_def [call_defs]:
    "proxy_getDelegated W p =
       perform (Call_proxy_getDelegated p)
         (\<lambda>h. w_proxy_getDelegated W h p)"

definition proxy_getAttester ::
  "world \<Rightarrow> ProxyRef \<Rightarrow> string \<Rightarrow> string run" where
  proxy_getAttester_def [call_defs]:
    "proxy_getAttester W p u =
       perform (Call_proxy_getAttester p u)
         (\<lambda>h. w_proxy_getAttester W h p u)"

definition signDelegatedAttestation ::
  "world \<Rightarrow> DelegatedRef \<Rightarrow> EIP712AttestationParams
    \<Rightarrow> BaseWallet \<Rightarrow> EIP712AttestationParams EIP712Response run" where
  signDelegatedAttestation_def [call_defs]:
    "signDelegatedAttestation W d ps signer =
       perform (Call_signDelegatedAttestation d ps signer)
         (\<lambda>h. w_signDelegatedAttestation W h d ps signer)"

definition verifyDelegatedAttestationSignature ::
  "world \<Rightarrow> DelegatedRef \<Rightarrow> string
    \<Rightarrow> EIP712AttestationParams EIP712Response \<Rightarrow> bool run" where
  verifyDelegatedAttestationSignature_def [call_defs]:
    "verifyDelegatedAttestationSignature W d a r =
       perform (Call_verifyDelegatedAttestationSignature d a r)
         (\<lambda>h. w_verifyDelegatedAttestationSignature W h d a r)"

definition signDelegatedProxyAttestation ::
  "world \<Rightarrow> DelegatedRef \<Rightarrow> EIP712AttestationProxyParams
    \<Rightarrow> BaseWallet \<Rightarrow> EIP712AttestationProxyParams EIP712Response run" where
  signDelegatedProxyAttestation_def [call_defs]:
    "signDelegatedProxyAttestation W d ps signer =
       perform (Call_signDelegatedProxyAttestation d ps signer)
         (\<lambda>h. w_signDelegatedProxyAttestation W h d ps signer)"

definition verifyDelegatedProxyAttestationSignature ::
  "world \<Rightarrow> DelegatedRef \<Rightarrow> string
    \<Rightarrow> EIP712AttestationProxyParams EIP712Response \<Rightarrow> bool run" where
  verifyDelegatedProxyAttestationSignature_def [call_defs]:
    "verifyDelegatedProxyAttestationSignature W d a r =
       perform (Call_verifyDelegatedProxyAttestationSignature d a r)
         (\<lambda>h. w_verifyDelegatedProxyAttestationSignature W h d a r)"

definition signDelegatedRevocation ::
  "world \<Rightarrow> DelegatedRef \<Rightarrow> EIP712RevocationParams
    \<Rightarrow> BaseWallet \<Rightarrow> EIP712RevocationParams EIP712Response run" where
  signDelegatedRevocation_def [call_defs]:
    "signDelegatedRevocation W d ps signer =
       perform (Call_signDelegatedRevocation d ps signer)
         (\<lambda>h. w_signDelegatedRevocation W h d ps signer)"

definition verifyDelegatedRevocationSignature ::
  "world \<Rightarrow> DelegatedRef \<Rightarrow> string
    \<Rightarrow> EIP712RevocationParams EIP712Response \<Rightarrow> bool run" where
  verifyDelegatedRevocationSignature_def [call_defs]:
    "verifyDelegatedRevocationSignature W d a r =
       perform (Call_verifyDelegatedRevocationSignature d a r)
         (\<lambda>h. w_verifyDelegatedRevocationSignature W h d a r)"

definition signDelegatedProxyRevocation ::
  "world \<Rightarrow> DelegatedRef \<Rightarrow> EIP712RevocationProxyParams
    \<Rightarrow> BaseWallet \<Rightarrow> EIP712RevocationProxyParams EIP712Response run" where
  signDelegatedProxyRevocation_def [call_defs]:
    "signDelegatedProxyRevocation W d ps signer =
       perform (Call_signDelegatedProxyRevocation d ps signer)
         (\<lambda>h. w_signDelegatedProxyRevocation W h d ps signer)"

definition verifyDelegatedProxyRevocationSignature ::
  "world \<Rightarrow> DelegatedRef \<Rightarrow> string
    \<Rightarrow> EIP712RevocationProxyParams EIP712Response \<Rightarrow> bool run" where
  verifyDelegatedProxyRevocationSignature_def [call_defs]:
    "verifyDelegatedProxyRevocationSignature W d a r =
       perform (Call_verifyDelegatedProxyRevocationSignature d a r)
         (\<lambda>h. w_verifyDelegatedProxyRevocationSignature W h d a r)"

definition signOffchainAttestation ::
  "world \<Rightarrow> OffchainRef \<Rightarrow> OffchainAttestationParams
    \<Rightarrow> BaseWallet \<Rightarrow> SignedOffchainAttestation run" where
  signOffchainAttestation_def [call_defs]:
    "signOffchainAttestation W f ps signer =
       perform (Call_signOffchainAttestation f ps signer)
         (\<lambda>h. w_signOffchainAttestation W h f ps signer)"

definition verifyOffchainAttestationSignature ::
  "world \<Rightarrow> OffchainRef \<Rightarrow> string
    \<Rightarrow> SignedOffchainAttestation \<Rightarrow> bool run" where
  verifyOffchainAttestationSignature_def [call_defs]:
    "verifyOffchainAttestationSignature W f a r =
       perform (Call_verifyOffchainAttestationSignature f a r)
         (\<lambda>h. w_verifyOffchainAttestationSignature W h f a r)"

subsection \<open>Fee overrides\<close>

text \<open>\<^verbatim>\<open>toString()\<close> of a bigint: its decimal digits, after a minus sign when negative.\<close>

definition digit_char :: "nat \<Rightarrow> char" where
  "digit_char d = char_of (48 + d)"

fun nat_toString :: "nat \<Rightarrow> string" where
  "nat_toString n =
     (if n < 10 then [digit_char n] else nat_toString (n div 10) @ [digit_char (n mod 10)])"

declare nat_toString.simps [simp del]

definition bigint_toString :: "int \<Rightarrow> string" where
  "bigint_toString i =
     (if i < 0 then CHR ''-'' # nat_toString (nat (- i)) else nat_toString (nat i))"

text \<open>
  JavaScript truthiness of a fee value: \<^verbatim>\<open>0n\<close> is falsy, every other bigint and every
  promise is truthy; an omitted option (\<^verbatim>\<open>undefined\<close>) is falsy.
\<close>

fun fee_truthy :: "fee \<Rightarrow> bool" where
  "fee_truthy (FeeBigint n) = (n \<noteq> 0)"
| "fee_truthy (FeePromise n) = True"

fun truthy :: "fee option \<Rightarrow> bool" where
  "truthy None = False"
| "truthy (Some f) = fee_truthy f"

fun fee_toString :: "fee \<Rightarrow> string" where
  "fee_toString (FeeBigint n) = bigint_toString n"
| "fee_toString (FeePromise n) = ''[object Promise]''"

text \<open>
  \<^verbatim>\<open>maxPriorityFeePerGas && maxFeePerGas
    ? { maxPriorityFeePerGas: maxPriorityFeePerGas?.toString(),
        maxFeePerGas: maxFeePerGas?.toString() }
    : undefined\<close>
\<close>

definition make_overrides :: "fee option \<Rightarrow> fee option \<Rightarrow> Overrides option" where
  "make_overrides maxPriorityFeePerGas maxFeePerGas =
     (case (maxPriorityFeePerGas, maxFeePerGas) of
        (Some p, Some f) \<Rightarrow>
          if fee_truthy p \<and> fee_truthy f
          then Some \<lparr>ov_maxPriorityFeePerGas = fee_toString p, ov_maxFeePerGas = fee_toString f\<rparr>
          else None
      | _ \<Rightarrow> None)"

text \<open>
  chai's \<^verbatim>\<open>equal\<close> between a fee field of the transaction (\<^verbatim>\<open>null | bigint\<close>) and a fee
  option: strict equality, so a promise equals no field.
\<close>

fun fee_equal :: "int option \<Rightarrow> fee \<Rightarrow> bool" where
  "fee_equal (Some v) (FeeBigint n) = (v = n)"
| "fee_equal _ _ = False"

text \<open>
  \<^verbatim>\<open>if (maxPriorityFeePerGas && maxFeePerGas && tx) {
    expect(tx.tx.maxPriorityFeePerGas).to.equal(maxPriorityFeePerGas);
    expect(tx.tx.maxFeePerGas).to.equal(maxFeePerGas);
  }\<close>
\<close>

definition expectFees :: "fee option \<Rightarrow> fee option \<Rightarrow> Transaction option \<Rightarrow> unit run" where
  "expectFees maxPriorityFeePerGas maxFeePerGas tx =
     (case (maxPriorityFeePerGas, maxFeePerGas, tx) of
        (Some p, Some f, Some t) \<Rightarrow>
          if fee_truthy p \<and> fee_truthy f
          then andThen (expect_true (fee_equal (tx_maxPriorityFeePerGas t) p)) (\<lambda>_.
               expect_true (fee_equal (tx_maxFeePerGas t) f))
          else ret ()
      | _ \<Rightarrow> ret ())"

subsection \<open>expectAttestation\<close>

text \<open>
  What the \<^verbatim>\<open>switch\<close> leaves behind: \<open>Continue\<close> with the variables the code after the
  switch reads, or \<open>Return\<close> when a case returned from the function.
\<close>

datatype ('s, 'r) flow = Continue 's | Return 'r

text \<open>
  The object literal \<^verbatim>\<open>{ recipient, expirationTime, revocable, refUID, data, value }\<close>:
  every field is present.
\<close>

definition request_data ::
  "string \<Rightarrow> int \<Rightarrow> bool \<Rightarrow> string \<Rightarrow> string \<Rightarrow> int \<Rightarrow> AttestationRequestData" where
  "request_data recipient expirationTime revocable refUID data val =
     \<lparr>ard_recipient = recipient, ard_data = data, ard_expirationTime = Some expirationTime,
      ard_revocable = Some revocable, ard_refUID = Some refUID, ard_value = Some val\<rparr>"

definition expectAttestation_Direct ::
  "world \<Rightarrow> string \<Rightarrow> AttestationRequestData \<Rightarrow> BaseWallet \<Rightarrow> Overrides option
    \<Rightarrow> (string \<times> Transaction option, string) flow run" where
  "expectAttestation_Direct W schema resolved txSender overrides =
     andThen (attest W txSender \<lparr>ar_schema = schema, ar_data = resolved\<rparr> overrides) (\<lambda>t.
     andThen (wait W t) (\<lambda>uid.
     ret (Continue (uid, None))))"

definition expectAttestation_Delegated ::
  "world \<Rightarrow> string \<Rightarrow> AttestationRequestData \<Rightarrow> string \<Rightarrow> int \<Rightarrow> bool \<Rightarrow> string \<Rightarrow> string
    \<Rightarrow> BaseWallet \<Rightarrow> Overrides option \<Rightarrow> (string \<times> Transaction option, string) flow run" where
  "expectAttestation_Delegated W schema resolved recipient expirationTime revocable refUID data
       txSender overrides =
     andThen (getDelegated W) (\<lambda>delegated.
     andThen (getNonce W (address txSender)) (\<lambda>nonce.
     andThen (signDelegatedAttestation W delegated
                \<lparr>ap_schema = schema, ap_recipient = recipient,
                 ap_expirationTime = expirationTime, ap_revocable = revocable,
                 ap_refUID = refUID, ap_data = data, ap_nonce = nonce\<rparr> txSender) (\<lambda>response.
     andThen (verifyDelegatedAttestationSignature W delegated (address txSender) response) (\<lambda>ok.
     andThen (expect_true ok) (\<lambda>_.
     andThen (attestByDelegation W txSender
                \<lparr>dar_schema = schema, dar_data = resolved,
                 dar_signature = res_signature response, dar_attester = address txSender\<rparr>
                overrides) (\<lambda>tx.
     andThen (wait W tx) (\<lambda>uid.
     ret (Continue (uid, Some tx)))))))))"

definition expectAttestation_DelegatedProxy ::
  "world \<Rightarrow> string \<Rightarrow> AttestationRequestData \<Rightarrow> string \<Rightarrow> int \<Rightarrow> bool \<Rightarrow> string \<Rightarrow> string
    \<Rightarrow> int \<Rightarrow> BaseWallet \<Rightarrow> Overrides option
    \<Rightarrow> (string \<times> Transaction option, string) flow run" where
  "expectAttestation_DelegatedProxy W schema resolved recipient expirationTime revocable refUID
       data deadline txSender overrides =
     andThen (getEIP712Proxy W) (\<lambda>proxy.
     case proxy of
       None \<Rightarrow> throw (Error ''Invalid proxy'')
     | Some proxy \<Rightarrow>
     andThen (proxy_getDelegated W proxy) (\<lambda>delegated.
     andThen (signDelegatedProxyAttestation W delegated
                \<lparr>app_schema = schema, app_recipient = recipient,
                 app_expirationTime = expirationTime, app_revocable = revocable,
                 app_refUID = refUID, app_data = data, app_deadline = deadline\<rparr> txSender)
       (\<lambda>response.
     andThen (verifyDelegatedProxyAttestationSignature W delegated (address txSender) response)
       (\<lambda>ok.
     andThen (expect_true ok) (\<lambda>_.
     andThen (attestByDelegationProxy W txSender
                \<lparr>dpar_schema = schema, dpar_data = resolved,
                 dpar_signature = res_signature response, dpar_attester = address txSender,
                 dpar_deadline = deadline\<rparr>
                overrides) (\<lambda>tx.
     andThen (wait W tx) (\<lambda>uid.
     andThen (getEIP712Proxy W) (\<lambda>proxy'.
     andThen (case proxy' of
                None \<Rightarrow> ret None
              | Some p \<Rightarrow> andThen (proxy_getAttester W p uid) (\<lambda>a. ret (Some a))) (\<lambda>attester.
     andThen (expect_equal attester (Some (address txSender))) (\<lambda>_.
     ret (Continue (uid, Some tx))))))))))))"

definition expectAttestation_Offchain ::
  "world \<Rightarrow> string \<Rightarrow> string \<Rightarrow> int \<Rightarrow> bool \<Rightarrow> string \<Rightarrow> string \<Rightarrow> BaseWallet
    \<Rightarrow> (string \<times> Transaction option, string) flow run" where
  "expectAttestation_Offchain W schema recipient expirationTime revocable refUID data txSender =
     andThen (getOffchain W) (\<lambda>offchain.
     andThen (latest W) (\<lambda>now.
     andThen (pure_call (w_getOffchainUID W OFFCHAIN_ATTESTATION_VERSION schema recipient now
                expirationTime revocable refUID data)) (\<lambda>uid.
     andThen (signOffchainAttestation W offchain
                \<lparr>oa_version = OFFCHAIN_ATTESTATION_VERSION, oa_schema = schema,
                 oa_recipient = recipient, oa_time = now, oa_expirationTime = expirationTime,
                 oa_revocable = revocable, oa_refUID = refUID, oa_data = data\<rparr> txSender)
       (\<lambda>response.
     andThen (expect_equal (soa_uid response) uid) (\<lambda>_.
     andThen (verifyOffchainAttestationSignature W offchain (address txSender) response) (\<lambda>ok.
     andThen (expect_true ok) (\<lambda>_.
     ret (Return uid))))))))"

text \<open>
  The destructuring defaults of the request and of the options come first; \<^verbatim>\<open>data\<close> is a
  required field of \<^verbatim>\<open>AttestationRequestData\<close>, so its default \<^verbatim>\<open>ZERO_BYTES\<close> never
  applies to a request of that type. In the \<open>Direct\<close> case the transaction is awaited in
  place and \<^verbatim>\<open>tx\<close> stays undefined.
\<close>

definition expectAttestation ::
  "world \<Rightarrow> string \<Rightarrow> AttestationRequestData \<Rightarrow> 'a AttestationOptions_scheme \<Rightarrow> string run" where
  "expectAttestation W schema request options =
     (let recipient = ard_recipient request;
          expirationTime = (case ard_expirationTime request of
                              None \<Rightarrow> NO_EXPIRATION | Some e \<Rightarrow> e);
          revocable = (case ard_revocable request of None \<Rightarrow> True | Some r \<Rightarrow> r);
          refUID = (case ard_refUID request of None \<Rightarrow> ZERO_BYTES32 | Some u \<Rightarrow> u);
          data = ard_data request;
          val = (case ard_value request of None \<Rightarrow> 0 | Some v \<Rightarrow> v);
          txSender = o_from options;
          signatureType = (case o_signatureType options of None \<Rightarrow> Direct | Some t \<Rightarrow> t);
          deadline = (case o_deadline options of None \<Rightarrow> NO_EXPIRATION | Some d \<Rightarrow> d);
          maxPriorityFeePerGas = o_maxPriorityFeePerGas options;
          maxFeePerGas = o_maxFeePerGas options;
          overrides = make_overrides maxPriorityFeePerGas maxFeePerGas;
          resolved = request_data recipient expirationTime revocable refUID data val
      in andThen
           (case signatureType of
              Direct \<Rightarrow> expectAttestation_Direct W schema resolved txSender overrides
            | Delegated \<Rightarrow>
                expectAttestation_Delegated W schema resolved recipient expirationTime revocable
                  refUID data txSender overrides
            | DelegatedProxy \<Rightarrow>
                expectAttestation_DelegatedProxy W schema resolved recipient expirationTime
                  revocable refUID data deadline txSender overrides
            | Offchain \<Rightarrow>
                expectAttestation_Offchain W schema recipient expirationTime revocable refUID
                  data txSender)
           (\<lambda>r. case r of
              Return uid \<Rightarrow> ret uid
            | Continue (uid, tx) \<Rightarrow>
                andThen (isAttestationValid W uid) (\<lambda>valid.
                andThen (expect_true valid) (\<lambda>_.
                andThen (expectFees maxPriorityFeePerGas maxFeePerGas tx) (\<lambda>_.
                ret uid)))))"

subsection \<open>expectMultiAttestations\<close>

text \<open>
  The inner loop of the \<open>Delegated\<close> case, over the items of one request: the state is
  \<^verbatim>\<open>responses\<close> and the local \<^verbatim>\<open>nonce\<close>, which \<^verbatim>\<open>nonce++\<close> advances after each item.
\<close>

fun signDelegatedAttestations ::
  "world \<Rightarrow> BaseWallet \<Rightarrow> string \<Rightarrow> AttestationRequestData list
    \<Rightarrow> EIP712AttestationParams EIP712Response list \<times> int
    \<Rightarrow> (EIP712AttestationParams EIP712Response list \<times> int) run" where
  "signDelegatedAttestations W txSender schema [] (responses, nonce) = ret (responses, nonce)"
| "signDelegatedAttestations W txSender schema (request # rest) (responses, nonce) =
     andThen (getDelegated W) (\<lambda>delegated.
     andThen (signDelegatedAttestation W delegated
                \<lparr>ap_schema = schema, ap_recipient = ard_recipient request,
                 ap_expirationTime = (case ard_expirationTime request of
                                        None \<Rightarrow> NO_EXPIRATION | Some e \<Rightarrow> e),
                 ap_revocable = (case ard_revocable request of None \<Rightarrow> True | Some r \<Rightarrow> r),
                 ap_refUID = (case ard_refUID request of None \<Rightarrow> ZERO_BYTES32 | Some u \<Rightarrow> u),
                 ap_data = ard_data request, ap_nonce = nonce\<rparr> txSender) (\<lambda>response.
     andThen (verifyDelegatedAttestationSignature W delegated (address txSender) response) (\<lambda>ok.
     andThen (expect_true ok) (\<lambda>_.
     signDelegatedAttestations W txSender schema rest (responses @ [response], nonce + 1)))))"

text \<open>The outer loop: one \<^verbatim>\<open>MultiDelegatedAttestationRequest\<close> for each request.\<close>

fun multiDelegatedAttestationRequests ::
  "world \<Rightarrow> BaseWallet \<Rightarrow> MultiAttestationRequest list
    \<Rightarrow> MultiDelegatedAttestationRequest list \<times> int
    \<Rightarrow> (MultiDelegatedAttestationRequest list \<times> int) run" where
  "multiDelegatedAttestationRequests W txSender [] (acc, nonce) = ret (acc, nonce)"
| "multiDelegatedAttestationRequests W txSender (r # rest) (acc, nonce) =
     andThen (signDelegatedAttestations W txSender (mar_schema r) (mar_data r) ([], nonce))
       (\<lambda>(responses, nonce').
     multiDelegatedAttestationRequests W txSender rest
       (acc @ [\<lparr>mdar_schema = mar_schema r, mdar_data = mar_data r,
                mdar_signatures = map res_signature responses,
                mdar_attester = address txSender\<rparr>], nonce'))"

fun signDelegatedProxyAttestations ::
  "world \<Rightarrow> DelegatedRef \<Rightarrow> BaseWallet \<Rightarrow> int \<Rightarrow> string \<Rightarrow> AttestationRequestData list
    \<Rightarrow> EIP712AttestationProxyParams EIP712Response list
    \<Rightarrow> EIP712AttestationProxyParams EIP712Response list run" where
  "signDelegatedProxyAttestations W delegated txSender deadline schema [] responses =
     ret responses"
| "signDelegatedProxyAttestations W delegated txSender deadline schema (request # rest)
       responses =
     andThen (signDelegatedProxyAttestation W delegated
                \<lparr>app_schema = schema, app_recipient = ard_recipient request,
                 app_expirationTime = (case ard_expirationTime request of
                                         None \<Rightarrow> NO_EXPIRATION | Some e \<Rightarrow> e),
                 app_revocable = (case ard_revocable request of None \<Rightarrow> True | Some r \<Rightarrow> r),
                 app_refUID = (case ard_refUID request of None \<Rightarrow> ZERO_BYTES32 | Some u \<Rightarrow> u),
                 app_data = ard_data request, app_deadline = deadline\<rparr> txSender) (\<lambda>response.
     andThen (verifyDelegatedProxyAttestationSignature W delegated (address txSender) response)
       (\<lambda>ok.
     andThen (expect_true ok) (\<lambda>_.
     signDelegatedProxyAttestations W delegated txSender deadline schema rest
       (responses @ [response]))))"

fun multiDelegatedProxyAttestationRequests ::
  "world \<Rightarrow> DelegatedRef \<Rightarrow> BaseWallet \<Rightarrow> int \<Rightarrow> MultiAttestationRequest list
    \<Rightarrow> MultiDelegatedProxyAttestationRequest list
    \<Rightarrow> MultiDelegatedProxyAttestationRequest list run" where
  "multiDelegatedProxyAttestationRequests W delegated txSender deadline [] acc = ret acc"
| "multiDelegatedProxyAttestationRequests W delegated txSender deadline (r # rest) acc =
     andThen (signDelegatedProxyAttestations W delegated txSender deadline (mar_schema r)
                (mar_data r) []) (\<lambda>responses.
     multiDelegatedProxyAttestationRequests W delegated txSender deadline rest
       (acc @ [\<lparr>mdpar_schema = mar_schema r, mdpar_data = mar_data r,
                mdpar_signatures = map res_signature responses,
                mdpar_attester = address txSender, mdpar_deadline = deadline\<rparr>]))"

text \<open>
  \<^verbatim>\<open>for (const uid of uids) {
    expect(await eas.getEIP712Proxy()?.getAttester(uid)).to.equal(txSender.address);
  }\<close>
\<close>

fun expectProxyAttesters :: "world \<Rightarrow> BaseWallet \<Rightarrow> string list \<Rightarrow> unit run" where
  "expectProxyAttesters W txSender [] = ret ()"
| "expectProxyAttesters W txSender (uid # rest) =
     andThen (getEIP712Proxy W) (\<lambda>proxy'.
     andThen (case proxy' of
                None \<Rightarrow> ret None
              | Some p \<Rightarrow> andThen (proxy_getAttester W p uid) (\<lambda>a. ret (Some a))) (\<lambda>attester.
     andThen (expect_equal attester (Some (address txSender))) (\<lambda>_.
     expectProxyAttesters W txSender rest)))"

text \<open>
  \<^verbatim>\<open>for (const uid of uids) { expect(await eas.isAttestationValid(uid)).to.be.true; }\<close>
\<close>

fun expectAllValid :: "world \<Rightarrow> string list \<Rightarrow> unit run" where
  "expectAllValid W [] = ret ()"
| "expectAllValid W (uid # rest) =
     andThen (isAttestationValid W uid) (\<lambda>valid.
     andThen (expect_true valid) (\<lambda>_.
     expectAllValid W rest))"

text \<open>
  The cases of the switch; each leaves \<^verbatim>\<open>uids\<close> and the outer \<^verbatim>\<open>tx\<close>. The \<open>Direct\<close>
  case declares a \<^verbatim>\<open>tx\<close> of its own, hands no overrides to \<^verbatim>\<open>multiAttest\<close> and leaves
  the outer \<^verbatim>\<open>tx\<close> undefined.
\<close>

definition expectMultiAttestations_Direct ::
  "world \<Rightarrow> MultiAttestationRequest list \<Rightarrow> BaseWallet
    \<Rightarrow> (string list \<times> Transaction option) run" where
  "expectMultiAttestations_Direct W requests txSender =
     andThen (multiAttest W txSender requests) (\<lambda>tx.
     andThen (waitMulti W tx) (\<lambda>uids.
     ret (uids, None)))"

definition expectMultiAttestations_Delegated ::
  "world \<Rightarrow> MultiAttestationRequest list \<Rightarrow> BaseWallet \<Rightarrow> Overrides option
    \<Rightarrow> (string list \<times> Transaction option) run" where
  "expectMultiAttestations_Delegated W requests txSender overrides =
     andThen (getNonce W (address txSender)) (\<lambda>nonce.
     andThen (multiDelegatedAttestationRequests W txSender requests ([], nonce))
       (\<lambda>(multiDelegatedAttestationRequests, nonce').
     andThen (multiAttestByDelegation W txSender multiDelegatedAttestationRequests overrides)
       (\<lambda>tx.
     andThen (waitMulti W tx) (\<lambda>uids.
     ret (uids, Some tx)))))"

definition expectMultiAttestations_DelegatedProxy ::
  "world \<Rightarrow> MultiAttestationRequest list \<Rightarrow> int \<Rightarrow> BaseWallet \<Rightarrow> Overrides option
    \<Rightarrow> (string list \<times> Transaction option) run" where
  "expectMultiAttestations_DelegatedProxy W requests deadline txSender overrides =
     andThen (getEIP712Proxy W) (\<lambda>proxy.
     case proxy of
       None \<Rightarrow> throw (Error ''Invalid proxy'')
     | Some proxy \<Rightarrow>
     andThen (proxy_getDelegated W proxy) (\<lambda>delegated.
     andThen (multiDelegatedProxyAttestationRequests W delegated txSender deadline requests [])
       (\<lambda>multiDelegatedProxyAttestationRequests.
     andThen (multiAttestByDelegationProxy W txSender multiDelegatedProxyAttestationRequests
                overrides) (\<lambda>tx.
     andThen (waitMulti W tx) (\<lambda>uids.
     andThen (expectProxyAttesters W txSender uids) (\<lambda>_.
     ret (uids, Some tx)))))))"

definition expectMultiAttestations_Offchain :: "(string list \<times> Transaction option) run" where
  "expectMultiAttestations_Offchain = throw (Error ''Offchain batch attestations are unsupported'')"

definition expectMultiAttestations ::
  "world \<Rightarrow> MultiAttestationRequest list \<Rightarrow> 'a AttestationOptions_scheme \<Rightarrow> unit run" where
  "expectMultiAttestations W requests options =
     (let txSender = o_from options;
          signatureType = (case o_signatureType options of None \<Rightarrow> Direct | Some t \<Rightarrow> t);
          deadline = (case o_deadline options of None \<Rightarrow> NO_EXPIRATION | Some d \<Rightarrow> d);
          maxPriorityFeePerGas = o_maxPriorityFeePerGas options;
          maxFeePerGas = o_maxFeePerGas options;
          overrides = make_overrides maxPriorityFeePerGas maxFeePerGas
      in andThen
           (case signatureType of
              Direct \<Rightarrow> expectMultiAttestations_Direct W requests txSender
            | Delegated \<Rightarrow> expectMultiAttestations_Delegated W requests txSender overrides
            | DelegatedProxy \<Rightarrow>
                expectMultiAttestations_DelegatedProxy W requests deadline txSender overrides
            | Offchain \<Rightarrow> expectMultiAttestations_Offchain)
           (\<lambda>(uids, tx).
              andThen (expectAllValid W uids) (\<lambda>_.
              expectFees maxPriorityFeePerGas maxFeePerGas tx)))"

subsection \<open>expectRevocation\<close>

definition expectRevocation_Direct ::
  "world \<Rightarrow> string \<Rightarrow> string \<Rightarrow> int \<Rightarrow> BaseWallet \<Rightarrow> Overrides option
    \<Rightarrow> Transaction option run" where
  "expectRevocation_Direct W schema uid val txSender overrides =
     andThen (revoke W txSender
                \<lparr>rr_schema = schema, rr_data = \<lparr>rrd_uid = uid, rrd_value = Some val\<rparr>\<rparr>
                overrides) (\<lambda>tx.
     ret (Some tx))"

definition expectRevocation_Delegated ::
  "world \<Rightarrow> string \<Rightarrow> string \<Rightarrow> int \<Rightarrow> BaseWallet \<Rightarrow> Overrides option
    \<Rightarrow> Transaction option run" where
  "expectRevocation_Delegated W schema uid val txSender overrides =
     andThen (getDelegated W) (\<lambda>delegated.
     andThen (getNonce W (address txSender)) (\<lambda>nonce.
     andThen (signDelegatedRevocation W delegated
                \<lparr>rp_schema = schema, rp_uid = uid, rp_nonce = nonce\<rparr> txSender) (\<lambda>response.
     andThen (verifyDelegatedRevocationSignature W delegated (address txSender) response) (\<lambda>ok.
     andThen (expect_true ok) (\<lambda>_.
     andThen (revokeByDelegation W txSender
                \<lparr>drr_schema = schema, drr_data = \<lparr>rrd_uid = uid, rrd_value = Some val\<rparr>,
                 drr_signature = res_signature response, drr_revoker = address txSender\<rparr>
                overrides) (\<lambda>tx.
     ret (Some tx)))))))"

definition expectRevocation_DelegatedProxy ::
  "world \<Rightarrow> string \<Rightarrow> string \<Rightarrow> int \<Rightarrow> int \<Rightarrow> BaseWallet \<Rightarrow> Overrides option
    \<Rightarrow> Transaction option run" where
  "expectRevocation_DelegatedProxy W schema uid val deadline txSender overrides =
     andThen (getEIP712Proxy W) (\<lambda>proxy.
     case proxy of
       None \<Rightarrow> throw (Error ''Invalid proxy'')
     | Some proxy \<Rightarrow>
     andThen (proxy_getDelegated W proxy) (\<lambda>delegated.
     andThen (signDelegatedProxyRevocation W delegated
                \<lparr>rpp_schema = schema, rpp_uid = uid, rpp_deadline = deadline\<rparr> txSender)
       (\<lambda>response.
     andThen (verifyDelegatedProxyRevocationSignature W delegated (address txSender) response)
       (\<lambda>ok.
     andThen (expect_true ok) (\<lambda>_.
     andThen (revokeByDelegationProxy W txSender
                \<lparr>dprr_schema = schema, dprr_data = \<lparr>rrd_uid = uid, rrd_value = Some val\<rparr>,
                 dprr_signature = res_signature response, dprr_revoker = address txSender,
                 dprr_deadline = deadline\<rparr>
                overrides) (\<lambda>tx.
     ret (Some tx)))))))"

text \<open>The switch has no \<open>Offchain\<close> case: nothing runs and \<^verbatim>\<open>tx\<close> stays undefined.\<close>

definition expectRevocation ::
  "world \<Rightarrow> string \<Rightarrow> RevocationRequestData \<Rightarrow> 'a RequestOptions_scheme \<Rightarrow> unit run" where
  "expectRevocation W schema request options =
     (let uid = rrd_uid request;
          val = (case rrd_value request of None \<Rightarrow> 0 | Some v \<Rightarrow> v);
          txSender = o_from options;
          signatureType = (case o_signatureType options of None \<Rightarrow> Direct | Some t \<Rightarrow> t);
          deadline = (case o_deadline options of None \<Rightarrow> NO_EXPIRATION | Some d \<Rightarrow> d);
          maxPriorityFeePerGas = o_maxPriorityFeePerGas options;
          maxFeePerGas = o_maxFeePerGas options;
          overrides = make_overrides maxPriorityFeePerGas maxFeePerGas
      in andThen
           (case signatureType of
              Direct \<Rightarrow> expectRevocation_Direct W schema uid val txSender overrides
            | Delegated \<Rightarrow> expectRevocation_Delegated W schema uid val txSender overrides
            | DelegatedProxy \<Rightarrow>
                expectRevocation_DelegatedProxy W schema uid val deadline txSender overrides
            | Offchain \<Rightarrow> ret None)
           (\<lambda>tx.
              andThen (isAttestationRevoked W uid) (\<lambda>revoked.
              andThen (expect_true revoked) (\<lambda>_.
              expectFees maxPriorityFeePerGas maxFeePerGas tx))))"

subsection \<open>expectMultiRevocations\<close>

fun signDelegatedRevocations ::
  "world \<Rightarrow> BaseWallet \<Rightarrow> string \<Rightarrow> RevocationRequestData list
    \<Rightarrow> EIP712RevocationParams EIP712Response list \<times> int
    \<Rightarrow> (EIP712RevocationParams EIP712Response list \<times> int) run" where
  "signDelegatedRevocations W txSender schema [] (responses, nonce) = ret (responses, nonce)"
| "signDelegatedRevocations W txSender schema (request # rest) (responses, nonce) =
     andThen (getDelegated W) (\<lambda>delegated.
     andThen (signDelegatedRevocation W delegated
                \<lparr>rp_schema = schema, rp_uid = rrd_uid request, rp_nonce = nonce\<rparr> txSender)
       (\<lambda>response.
     andThen (verifyDelegatedRevocationSignature W delegated (address txSender) response) (\<lambda>ok.
     andThen (expect_true ok) (\<lambda>_.
     signDelegatedRevocations W txSender schema rest (responses @ [response], nonce + 1)))))"

fun multiDelegatedRevocationRequests ::
  "world \<Rightarrow> BaseWallet \<Rightarrow> MultiRevocationRequest list
    \<Rightarrow> MultiDelegatedRevocationRequest list \<times> int
    \<Rightarrow> (MultiDelegatedRevocationRequest list \<times> int) run" where
  "multiDelegatedRevocationRequests W txSender [] (acc, nonce) = ret (acc, nonce)"
| "multiDelegatedRevocationRequests W txSender (r # rest) (acc, nonce) =
     andThen (signDelegatedRevocations W txSender (mrr_schema r) (mrr_data r) ([], nonce))
       (\<lambda>(responses, nonce').
     multiDelegatedRevocationRequests W txSender rest
       (acc @ [\<lparr>mdrr_schema = mrr_schema r, mdrr_data = mrr_data r,
                mdrr_signatures = map res_signature responses,
                mdrr_revoker = address txSender\<rparr>], nonce'))"

fun signDelegatedProxyRevocations ::
  "world \<Rightarrow> DelegatedRef \<Rightarrow> BaseWallet \<Rightarrow> int \<Rightarrow> string \<Rightarrow> RevocationRequestData list
    \<Rightarrow> EIP712RevocationProxyParams EIP712Response list
    \<Rightarrow> EIP712RevocationProxyParams EIP712Response list run" where
  "signDelegatedProxyRevocations W delegated txSender deadline schema [] responses =
     ret responses"
| "signDelegatedProxyRevocations W delegated txSender deadline schema (request # rest)
       responses =
     andThen (signDelegatedProxyRevocation W delegated
                \<lparr>rpp_schema = schema, rpp_uid = rrd_uid request, rpp_deadline = deadline\<rparr>
                txSender) (\<lambda>response.
     andThen (verifyDelegatedProxyRevocationSignature W delegated (address txSender) response)
       (\<lambda>ok.
     andThen (expect_true ok) (\<lambda>_.
     signDelegatedProxyRevocations W delegated txSender deadline schema rest
       (responses @ [response]))))"

fun multiDelegatedProxyRevocationRequests ::
  "world \<Rightarrow> DelegatedRef \<Rightarrow> BaseWallet \<Rightarrow> int \<Rightarrow> MultiRevocationRequest list
    \<Rightarrow> MultiDelegatedProxyRevocationRequest list
    \<Rightarrow> MultiDelegatedProxyRevocationRequest list run" where
  "multiDelegatedProxyRevocationRequests W delegated txSender deadline [] acc = ret acc"
| "multiDelegatedProxyRevocationRequests W delegated txSender deadline (r # rest) acc =
     andThen (signDelegatedProxyRevocations W delegated txSender deadline (mrr_schema r)
                (mrr_data r) []) (\<lambda>responses.
     multiDelegatedProxyRevocationRequests W delegated txSender deadline rest
       (acc @ [\<lparr>mdprr_schema = mrr_schema r, mdprr_data = mrr_data r,
                mdprr_signatures = map res_signature responses,
                mdprr_revoker = address txSender, mdprr_deadline = deadline\<rparr>]))"

text \<open>
  \<^verbatim>\<open>for (const data of requests) {
    for (const { uid } of data.data) {
      expect(await eas.isAttestationValid(uid)).to.be.true;
      expect(await eas.isAttestationRevoked(uid)).to.be.true;
    }
  }\<close>
\<close>

fun expectItemsRevoked :: "world \<Rightarrow> RevocationRequestData list \<Rightarrow> unit run" where
  "expectItemsRevoked W [] = ret ()"
| "expectItemsRevoked W (item # rest) =
     andThen (isAttestationValid W (rrd_uid item)) (\<lambda>valid.
     andThen (expect_true valid) (\<lambda>_.
     andThen (isAttestationRevoked W (rrd_uid item)) (\<lambda>revoked.
     andThen (expect_true revoked) (\<lambda>_.
     expectItemsRevoked W rest))))"

fun expectAllRevoked :: "world \<Rightarrow> MultiRevocationRequest list \<Rightarrow> unit run" where
  "expectAllRevoked W [] = ret ()"
| "expectAllRevoked W (r # rest) =
     andThen (expectItemsRevoked W (mrr_data r)) (\<lambda>_.
     expectAllRevoked W rest)"

text \<open>
  The cases of the switch; each leaves the outer \<^verbatim>\<open>tx\<close>. The \<open>Direct\<close> case hands no
  overrides to \<^verbatim>\<open>multiRevoke\<close> and drops the transaction.
\<close>

definition expectMultiRevocations_Direct ::
  "world \<Rightarrow> MultiRevocationRequest list \<Rightarrow> BaseWallet \<Rightarrow> Transaction option run" where
  "expectMultiRevocations_Direct W requests txSender =
     andThen (multiRevoke W txSender requests) (\<lambda>_.
     ret None)"

definition expectMultiRevocations_Delegated ::
  "world \<Rightarrow> MultiRevocationRequest list \<Rightarrow> BaseWallet \<Rightarrow> Overrides option
    \<Rightarrow> Transaction option run" where
  "expectMultiRevocations_Delegated W requests txSender overrides =
     andThen (getNonce W (address txSender)) (\<lambda>nonce.
     andThen (multiDelegatedRevocationRequests W txSender requests ([], nonce))
       (\<lambda>(multiDelegatedRevocationRequests, nonce').
     andThen (multiRevokeByDelegation W txSender multiDelegatedRevocationRequests overrides)
       (\<lambda>tx.
     ret (Some tx))))"

definition expectMultiRevocations_DelegatedProxy ::
  "world \<Rightarrow> MultiRevocationRequest list \<Rightarrow> int \<Rightarrow> BaseWallet \<Rightarrow> Overrides option
    \<Rightarrow> Transaction option run" where
  "expectMultiRevocations_DelegatedProxy W requests deadline txSender overrides =
     andThen (getEIP712Proxy W) (\<lambda>proxy.
     case proxy of
       None \<Rightarrow> throw (Error ''Invalid proxy'')
     | Some proxy \<Rightarrow>
     andThen (proxy_getDelegated W proxy) (\<lambda>delegated.
     andThen (multiDelegatedProxyRevocationRequests W delegated txSender deadline requests [])
       (\<lambda>multiDelegatedProxyRevocationRequests.
     andThen (multiRevokeByDelegationProxy W txSender multiDelegatedProxyRevocationRequests
                overrides) (\<lambda>tx.
     ret (Some tx)))))"

text \<open>
  The switch of \<^verbatim>\<open>expectMultiRevocations\<close>, then the code after it. The switch has no
  \<open>Offchain\<close> case.
\<close>

definition expectMultiRevocations_switch ::
  "world \<Rightarrow> MultiRevocationRequest list \<Rightarrow> SignatureType \<Rightarrow> int \<Rightarrow> BaseWallet
    \<Rightarrow> Overrides option \<Rightarrow> Transaction option run" where
  "expectMultiRevocations_switch W requests signatureType deadline txSender overrides =
     (case signatureType of
        Direct \<Rightarrow> expectMultiRevocations_Direct W requests txSender
      | Delegated \<Rightarrow> expectMultiRevocations_Delegated W requests txSender overrides
      | DelegatedProxy \<Rightarrow>
          expectMultiRevocations_DelegatedProxy W requests deadline txSender overrides
      | Offchain \<Rightarrow> ret None)"

definition expectMultiRevocations ::
  "world \<Rightarrow> MultiRevocationRequest list \<Rightarrow> 'a RequestOptions_scheme \<Rightarrow> unit run" where
  "expectMultiRevocations W requests options =
     (let txSender = o_from options;
          signatureType = (case o_signatureType options of None \<Rightarrow> Direct | Some t \<Rightarrow> t);
          deadline = (case o_deadline options of None \<Rightarrow> NO_EXPIRATION | Some d \<Rightarrow> d);
          maxPriorityFeePerGas = o_maxPriorityFeePerGas options;
          maxFeePerGas = o_maxFeePerGas options;
          overrides = make_overrides maxPriorityFeePerGas maxFeePerGas
      in andThen
           (expectMultiRevocations_switch W requests signatureType deadline txSender overrides)
           (\<lambda>tx.
              andThen (expectAllRevoked W requests) (\<lambda>_.
              expectFees maxPriorityFeePerGas maxFeePerGas tx)))"

subsection \<open>Reading a run\<close>

text \<open>
  The calls a run makes when it starts after \<open>h\<close>, and how it ends. \<open>run_spec m h Q\<close> says
  that the run of \<open>m\<close> after \<open>h\<close> only extends \<open>h\<close>, and that \<open>Q\<close> holds of the calls it
  added and of its outcome.
\<close>

definition calls_of :: "'a run \<Rightarrow> history \<Rightarrow> event list" where
  "calls_of m h = drop (length h) (fst (m h))"

definition outcome :: "'a run \<Rightarrow> history \<Rightarrow> error + 'a" where
  "outcome m h = snd (m h)"

definition run_spec :: "'a run \<Rightarrow> history \<Rightarrow> (event list \<Rightarrow> error + 'a \<Rightarrow> bool) \<Rightarrow> bool" where
  "run_spec m h Q = (\<exists>es. fst (m h) = h @ es \<and> Q es (snd (m h)))"

text \<open>The addresses whose nonce was queried, and the parameters handed to the delegated
  signers, in the order of the calls.\<close>

definition nonce_queries :: "event list \<Rightarrow> string list" where
  "nonce_queries es = concat (map (\<lambda>ev. case ev of Call_getNonce a \<Rightarrow> [a] | _ \<Rightarrow> []) es)"

definition signed_attestations :: "event list \<Rightarrow> EIP712AttestationParams list" where
  "signed_attestations es =
     concat (map (\<lambda>ev. case ev of Call_signDelegatedAttestation d ps s \<Rightarrow> [ps] | _ \<Rightarrow> []) es)"

definition signed_revocations :: "event list \<Rightarrow> EIP712RevocationParams list" where
  "signed_revocations es =
     concat (map (\<lambda>ev. case ev of Call_signDelegatedRevocation d ps s \<Rightarrow> [ps] | _ \<Rightarrow> []) es)"

subsection \<open>An example ledger\<close>

text \<open>
  A ledger that accepts everything, used to run the orchestrators on concrete requests:
  every submission returns the transaction \<open>tx\<close>, waiting for it gives \<open>uids\<close> (the first
  of them for a single request), the nonce of every signer is \<open>nonce\<close>, the configured
  proxy is \<open>proxy\<close> and records \<open>attester\<close> for every attestation. Signers sign with a
  fixed signature, every verification succeeds, and the UID of an offchain attestation is
  a toy digest of its fields.
\<close>

definition example_signature :: Signature where
  "example_signature = \<lparr>sig_v = 27, sig_r = ''0x01'', sig_s = ''0x02''\<rparr>"

definition example_uid :: "OffchainAttestationParams \<Rightarrow> string" where
  "example_uid ps = oa_schema ps @ ''/'' @ oa_recipient ps @ ''/'' @ oa_refUID ps @ ''/''
     @ oa_data ps"

definition hd_uid :: "string list \<Rightarrow> string" where
  "hd_uid uids = (case uids of [] \<Rightarrow> ''0x00'' | u # _ \<Rightarrow> u)"

definition example_world ::
  "ProxyRef option \<Rightarrow> int \<Rightarrow> Transaction \<Rightarrow> string list \<Rightarrow> string \<Rightarrow> world" where
  "example_world proxy nonce tx uids attester =
     \<lparr>
      w_attest = (\<lambda>h s r ov. Inr tx),
      w_attestByDelegation = (\<lambda>h s r ov. Inr tx),
      w_attestByDelegationProxy = (\<lambda>h s r ov. Inr tx),
      w_multiAttest = (\<lambda>h s r. Inr tx),
      w_multiAttestByDelegation = (\<lambda>h s r ov. Inr tx),
      w_multiAttestByDelegationProxy = (\<lambda>h s r ov. Inr tx),
      w_revoke = (\<lambda>h s r ov. Inr tx),
      w_revokeByDelegation = (\<lambda>h s r ov. Inr tx),
      w_revokeByDelegationProxy = (\<lambda>h s r ov. Inr tx),
      w_multiRevoke = (\<lambda>h s r. Inr tx),
      w_multiRevokeByDelegation = (\<lambda>h s r ov. Inr tx),
      w_multiRevokeByDelegationProxy = (\<lambda>h s r ov. Inr tx),
      w_wait = (\<lambda>h t. Inr (hd_uid uids)),
      w_waitMulti = (\<lambda>h t. Inr uids),
      w_getNonce = (\<lambda>h a. Inr nonce),
      w_isAttestationValid = (\<lambda>h u. Inr True),
      w_isAttestationRevoked = (\<lambda>h u. Inr True),
      w_getDelegated = (\<lambda>h. Inr 1),
      w_getEIP712Proxy = (\<lambda>h. Inr proxy),
      w_getOffchain = (\<lambda>h. Inr 2),
      w_latest = (\<lambda>h. Inr 1000),
      w_proxy_getDelegated = (\<lambda>h p. Inr 3),
      w_proxy_getAttester = (\<lambda>h p u. Inr attester),
      w_signDelegatedAttestation =
        (\<lambda>h d ps s. Inr \<lparr>res_message = ps, res_signature = example_signature\<rparr>),
      w_verifyDelegatedAttestationSignature = (\<lambda>h d a r. Inr True),
      w_signDelegatedProxyAttestation =
        (\<lambda>h d ps s. Inr \<lparr>res_message = ps, res_signature = example_signature\<rparr>),
      w_verifyDelegatedProxyAttestationSignature = (\<lambda>h d a r. Inr True),
      w_signDelegatedRevocation =
        (\<lambda>h d ps s. Inr \<lparr>res_message = ps, res_signature = example_signature\<rparr>),
      w_verifyDelegatedRevocationSignature = (\<lambda>h d a r. Inr True),
      w_signDelegatedProxyRevocation =
        (\<lambda>h d ps s. Inr \<lparr>res_message = ps, res_signature = example_signature\<rparr>),
      w_verifyDelegatedProxyRevocationSignature = (\<lambda>h d a r. Inr True),
      w_signOffchainAttestation =
        (\<lambda>h f ps s. Inr \<lparr>soa_message = ps, soa_signature = example_signature,
           soa_uid = example_uid ps\<rparr>),
      w_verifyOffchainAttestationSignature = (\<lambda>h f a r. Inr True),
      w_getOffchainUID =
        (\<lambda>v s r t e rv ru d. Inr (example_uid
           \<lparr>oa_version = v, oa_schema = s, oa_recipient = r, oa_time = t,
            oa_expirationTime = e, oa_revocable = rv, oa_refUID = ru, oa_data = d\<rparr>))
     \<rparr>"

definition example_wallet :: BaseWallet where
  "example_wallet = \<lparr>address = ''0xA11CE''\<rparr>"

definition example_tx :: Transaction where
  "example_tx = \<lparr>tx_hash = ''0x7a'', tx_maxPriorityFeePerGas = None, tx_maxFeePerGas = None\<rparr>"

definition example_options :: AttestationOptions where
  "example_options =
     \<lparr>o_signatureType = None, o_deadline = None, o_from = example_wallet, o_value = None,
      o_maxPriorityFeePerGas = None, o_maxFeePerGas = None, o_bump = None\<rparr>"

definition example_revocation_options :: RevocationOptions where
  "example_revocation_options =
     \<lparr>o_signatureType = None, o_deadline = None, o_from = example_wallet, o_value = None,
      o_maxPriorityFeePerGas = None, o_maxFeePerGas = None\<rparr>"

definition example_request :: AttestationRequestData where
  "example_request =
     \<lparr>ard_recipient = ''0xB0B'', ard_data = ''0x1234'', ard_expirationTime = None,
      ard_revocable = None, ard_refUID = None, ard_value = None\<rparr>"

text \<open>A call that only reads the ledger's view of an attestation.\<close>

definition is_query :: "event \<Rightarrow> bool" where
  "is_query ev =
     (case ev of Call_isAttestationValid u \<Rightarrow> True | Call_isAttestationRevoked u \<Rightarrow> True
      | _ \<Rightarrow> False)"

subsection \<open>Nonces of a delegated batch\<close>

text \<open>
  The parameters a delegated batch is expected to sign when its first nonce is \<open>n\<close>: the
  items of the requests in request order, the \<open>i\<close>-th item overall with nonce \<open>n + i\<close>
  (and, for an attestation, with the defaults of its omitted fields).
\<close>

fun delegated_attestation_params ::
  "string \<Rightarrow> AttestationRequestData list \<Rightarrow> int \<Rightarrow> EIP712AttestationParams list" where
  "delegated_attestation_params schema [] n = []"
| "delegated_attestation_params schema (request # rest) n =
     \<lparr>ap_schema = schema, ap_recipient = ard_recipient request,
      ap_expirationTime = (case ard_expirationTime request of
                             None \<Rightarrow> NO_EXPIRATION | Some e \<Rightarrow> e),
      ap_revocable = (case ard_revocable request of None \<Rightarrow> True | Some r \<Rightarrow> r),
      ap_refUID = (case ard_refUID request of None \<Rightarrow> ZERO_BYTES32 | Some u \<Rightarrow> u),
      ap_data = ard_data request, ap_nonce = n\<rparr>
     # delegated_attestation_params schema rest (n + 1)"

fun batch_attestation_params ::
  "MultiAttestationRequest list \<Rightarrow> int \<Rightarrow> EIP712AttestationParams list" where
  "batch_attestation_params [] n = []"
| "batch_attestation_params (r # rest) n =
     delegated_attestation_params (mar_schema r) (mar_data r) n
     @ batch_attestation_params rest (n + int (length (mar_data r)))"

fun delegated_revocation_params ::
  "string \<Rightarrow> RevocationRequestData list \<Rightarrow> int \<Rightarrow> EIP712RevocationParams list" where
  "delegated_revocation_params schema [] n = []"
| "delegated_revocation_params schema (request # rest) n =
     \<lparr>rp_schema = schema, rp_uid = rrd_uid request, rp_nonce = n\<rparr>
     # delegated_revocation_params schema rest (n + 1)"

fun batch_revocation_params ::
  "MultiRevocationRequest list \<Rightarrow> int \<Rightarrow> EIP712RevocationParams list" where
  "batch_revocation_params [] n = []"
| "batch_revocation_params (r # rest) n =
     delegated_revocation_params (mrr_schema r) (mrr_data r) n
     @ batch_revocation_params rest (n + int (length (mrr_data r)))"

text \<open>The nonces \<open>n, n + 1, \<dots>, n + N - 1\<close>.\<close>

definition nonces_from :: "int \<Rightarrow> nat \<Rightarrow> int list" where
  "nonces_from n N = map (\<lambda>i. n + int i) [0..<N]"

subsection \<open>Reading submissions and signing calls\<close>

text \<open>
  \<open>carries ov ev\<close>: if \<open>ev\<close> is a submission call that takes an overrides argument, that
  argument is \<open>ov\<close>. (\<^verbatim>\<open>multiAttest\<close> and \<^verbatim>\<open>multiRevoke\<close> are called with the requests
  only.)
\<close>

definition carries :: "Overrides option \<Rightarrow> event \<Rightarrow> bool" where
  "carries ov ev =
     (case ev of
        Call_attest s r ov' \<Rightarrow> ov' = ov
      | Call_attestByDelegation s r ov' \<Rightarrow> ov' = ov
      | Call_attestByDelegationProxy s r ov' \<Rightarrow> ov' = ov
      | Call_multiAttestByDelegation s r ov' \<Rightarrow> ov' = ov
      | Call_multiAttestByDelegationProxy s r ov' \<Rightarrow> ov' = ov
      | Call_revoke s r ov' \<Rightarrow> ov' = ov
      | Call_revokeByDelegation s r ov' \<Rightarrow> ov' = ov
      | Call_revokeByDelegationProxy s r ov' \<Rightarrow> ov' = ov
      | Call_multiRevokeByDelegation s r ov' \<Rightarrow> ov' = ov
      | Call_multiRevokeByDelegationProxy s r ov' \<Rightarrow> ov' = ov
      | _ \<Rightarrow> True)"

text \<open>The calls that hand a request to the ledger, and the calls that ask for a signature.\<close>

definition is_submission :: "event \<Rightarrow> bool" where
  "is_submission ev =
     (case ev of
        Call_attest s r ov \<Rightarrow> True
      | Call_attestByDelegation s r ov \<Rightarrow> True
      | Call_attestByDelegationProxy s r ov \<Rightarrow> True
      | Call_multiAttest s r \<Rightarrow> True
      | Call_multiAttestByDelegation s r ov \<Rightarrow> True
      | Call_multiAttestByDelegationProxy s r ov \<Rightarrow> True
      | Call_revoke s r ov \<Rightarrow> True
      | Call_revokeByDelegation s r ov \<Rightarrow> True
      | Call_revokeByDelegationProxy s r ov \<Rightarrow> True
      | Call_multiRevoke s r \<Rightarrow> True
      | Call_multiRevokeByDelegation s r ov \<Rightarrow> True
      | Call_multiRevokeByDelegationProxy s r ov \<Rightarrow> True
      | _ \<Rightarrow> False)"

definition is_signing :: "event \<Rightarrow> bool" where
  "is_signing ev =
     (case ev of
        Call_signDelegatedAttestation d ps s \<Rightarrow> True
      | Call_signDelegatedProxyAttestation d ps s \<Rightarrow> True
      | Call_signDelegatedRevocation d ps s \<Rightarrow> True
      | Call_signDelegatedProxyRevocation d ps s \<Rightarrow> True
      | Call_signOffchainAttestation f ps s \<Rightarrow> True
      | _ \<Rightarrow> False)"

text \<open>The number that a string of decimal digits denotes.\<close>

definition digits_value :: "string \<Rightarrow> nat" where
  "digits_value ds = foldl (\<lambda>acc c. 10 * acc + (of_char c - 48)) 0 ds"

text \<open>A transaction that reports the fees 2 and 30.\<close>

definition example_fee_tx :: Transaction where
  "example_fee_tx =
     \<lparr>tx_hash = ''0x7b'', tx_maxPriorityFeePerGas = Some 2, tx_maxFeePerGas = Some 30\<rparr>"

text \<open>\<open>emits P m\<close>: every call that \<open>m\<close> makes, from whatever history, satisfies \<open>P\<close>.\<close>

definition emits :: "(event \<Rightarrow> bool) \<Rightarrow> 'a run \<Rightarrow> bool" where
  "emits P m = (\<forall>h. run_spec m h (\<lambda>es r. list_all P es))"

subsection \<open>Defaults of an attestation request\<close>

text \<open>
  The request with every omitted optional field replaced by its documented default: no
  expiration, revocable, the zero reference UID, no value attached.
\<close>

definition resolved_request :: "AttestationRequestData \<Rightarrow> AttestationRequestData" where
  "resolved_request request =
     \<lparr>ard_recipient = ard_recipient request, ard_data = ard_data request,
      ard_expirationTime =
        Some (case ard_expirationTime request of None \<Rightarrow> NO_EXPIRATION | Some e \<Rightarrow> e),
      ard_revocable = Some (case ard_revocable request of None \<Rightarrow> True | Some r \<Rightarrow> r),
      ard_refUID = Some (case ard_refUID request of None \<Rightarrow> ZERO_BYTES32 | Some u \<Rightarrow> u),
      ard_value = Some (case ard_value request of None \<Rightarrow> 0 | Some v \<Rightarrow> v)\<rparr>"

text \<open>
  \<open>signs_resolved request recipient expirationTime revocable refUID data\<close>: the fields
  handed to a signer are those of the resolved request.
\<close>

definition signs_resolved ::
  "AttestationRequestData \<Rightarrow> string \<Rightarrow> int \<Rightarrow> bool \<Rightarrow> string \<Rightarrow> string \<Rightarrow> bool" where
  "signs_resolved request recipient expirationTime revocable refUID data =
     (recipient = ard_recipient request \<and> data = ard_data request \<and>
      Some expirationTime = ard_expirationTime (resolved_request request) \<and>
      Some revocable = ard_revocable (resolved_request request) \<and>
      Some refUID = ard_refUID (resolved_request request))"

text \<open>
  For a single request: every submission carries the resolved request, and every signer is
  handed its fields.
\<close>

definition uses_resolved :: "AttestationRequestData \<Rightarrow> event \<Rightarrow> bool" where
  "uses_resolved request ev =
     (case ev of
        Call_attest s r ov \<Rightarrow> ar_data r = resolved_request request
      | Call_attestByDelegation s r ov \<Rightarrow> dar_data r = resolved_request request
      | Call_attestByDelegationProxy s r ov \<Rightarrow> dpar_data r = resolved_request request
      | Call_signDelegatedAttestation d ps s \<Rightarrow>
          signs_resolved request (ap_recipient ps) (ap_expirationTime ps) (ap_revocable ps)
            (ap_refUID ps) (ap_data ps)
      | Call_signDelegatedProxyAttestation d ps s \<Rightarrow>
          signs_resolved request (app_recipient ps) (app_expirationTime ps) (app_revocable ps)
            (app_refUID ps) (app_data ps)
      | Call_signOffchainAttestation f ps s \<Rightarrow>
          signs_resolved request (oa_recipient ps) (oa_expirationTime ps) (oa_revocable ps)
            (oa_refUID ps) (oa_data ps)
      | _ \<Rightarrow> True)"

text \<open>
  For a batch: every signer is handed the resolved fields of one of the items, and every
  submission carries the items as they were given.
\<close>

definition batch_uses_resolved :: "MultiAttestationRequest list \<Rightarrow> event \<Rightarrow> bool" where
  "batch_uses_resolved requests ev =
     (case ev of
        Call_signDelegatedAttestation d ps s \<Rightarrow>
          (\<exists>request \<in> set (concat (map mar_data requests)).
             signs_resolved request (ap_recipient ps) (ap_expirationTime ps) (ap_revocable ps)
               (ap_refUID ps) (ap_data ps))
      | Call_signDelegatedProxyAttestation d ps s \<Rightarrow>
          (\<exists>request \<in> set (concat (map mar_data requests)).
             signs_resolved request (app_recipient ps) (app_expirationTime ps)
               (app_revocable ps) (app_refUID ps) (app_data ps))
      | Call_multiAttest s reqs \<Rightarrow> reqs = requests
      | Call_multiAttestByDelegation s reqs ov \<Rightarrow> map mdar_data reqs = map mar_data requests
      | Call_multiAttestByDelegationProxy s reqs ov \<Rightarrow>
          map mdpar_data reqs = map mar_data requests
      | _ \<Rightarrow> True)"

subsection \<open>The offchain signer and verifier\<close>

text \<open>
  Modelled from the spec: \<^verbatim>\<open>signOffchainAttestation\<close> and
  \<^verbatim>\<open>verifyOffchainAttestationSignature\<close> of \<^verbatim>\<open>src/offchain\<close> are not among the sources
  (the helper only calls them). The spec gives their contract:
  \<^verbatim>\<open>signOffchainAttestation(fields, signerKey) -> {uid, signature, domain}\<close> where
  \<^verbatim>\<open>uid = deriveUID(...)\<close> is computed over the same canonical fields being signed, and
  \<^verbatim>\<open>verifyOffchainAttestationSignature(claimedAddress, response) -> bool\<close> recomputes the
  UID independently and fails closed if it disagrees with the response's embedded UID, even
  if the raw signature recovers correctly. The UID derivation \<open>deriveUID\<close> (total, by the
  spec), the raw signing primitive \<open>sign\<close> and the address recovery \<open>recover\<close> are
  parameters.
\<close>

definition spec_signOffchainAttestation ::
  "(OffchainAttestationParams \<Rightarrow> string) \<Rightarrow> (OffchainAttestationParams \<Rightarrow> BaseWallet \<Rightarrow> Signature)
    \<Rightarrow> OffchainAttestationParams \<Rightarrow> BaseWallet \<Rightarrow> SignedOffchainAttestation" where
  "spec_signOffchainAttestation deriveUID sign params signer =
     \<lparr>soa_message = params, soa_signature = sign params signer, soa_uid = deriveUID params\<rparr>"

definition spec_verifyOffchainAttestationSignature ::
  "(OffchainAttestationParams \<Rightarrow> string) \<Rightarrow> (OffchainAttestationParams \<Rightarrow> Signature \<Rightarrow> string)
    \<Rightarrow> string \<Rightarrow> SignedOffchainAttestation \<Rightarrow> bool" where
  "spec_verifyOffchainAttestationSignature deriveUID recover claimedAddress response =
     (soa_uid response = deriveUID (soa_message response) \<and>
      recover (soa_message response) (soa_signature response) = claimedAddress)"

text \<open>
  A ledger whose offchain signer, offchain verifier and \<^verbatim>\<open>getOffchainUID\<close> are the ones
  modelled from the spec, over the same \<open>deriveUID\<close>.
\<close>

definition with_spec_offchain ::
  "(OffchainAttestationParams \<Rightarrow> string) \<Rightarrow> (OffchainAttestationParams \<Rightarrow> BaseWallet \<Rightarrow> Signature)
    \<Rightarrow> (OffchainAttestationParams \<Rightarrow> Signature \<Rightarrow> string) \<Rightarrow> world \<Rightarrow> world" where
  "with_spec_offchain deriveUID sign recover W =
     W\<lparr>w_signOffchainAttestation :=
         (\<lambda>h f ps s. Inr (spec_signOffchainAttestation deriveUID sign ps s)),
       w_verifyOffchainAttestationSignature :=
         (\<lambda>h f a r. Inr (spec_verifyOffchainAttestationSignature deriveUID recover a r)),
       w_getOffchainUID :=
         (\<lambda>v s r t e rv ru d. Inr (deriveUID
            \<lparr>oa_version = v, oa_schema = s, oa_recipient = r, oa_time = t,
             oa_expirationTime = e, oa_revocable = rv, oa_refUID = ru, oa_data = d\<rparr>))\<rparr>"

text \<open>The fields \<^verbatim>\<open>expectAttestation\<close> signs offchain for a request, at time \<open>now\<close>.\<close>

definition offchain_fields ::
  "string \<Rightarrow> AttestationRequestData \<Rightarrow> int \<Rightarrow> OffchainAttestationParams" where
  "offchain_fields schema request now =
     \<lparr>oa_version = OFFCHAIN_ATTESTATION_VERSION, oa_schema = schema,
      oa_recipient = ard_recipient request, oa_time = now,
      oa_expirationTime = (case ard_expirationTime request of
                             None \<Rightarrow> NO_EXPIRATION | Some e \<Rightarrow> e),
      oa_revocable = (case ard_revocable request of None \<Rightarrow> True | Some r \<Rightarrow> r),
      oa_refUID = (case ard_refUID request of None \<Rightarrow> ZERO_BYTES32 | Some u \<Rightarrow> u),
      oa_data = ard_data request\<rparr>"

section \<open>Properties\<close>

subsection \<open>Sequencing\<close>

lemma andThen_ret [simp]: "andThen (ret x) f = f x"
  by (rule ext) (simp add: andThen_def ret_def)

lemma andThen_throw [simp]: "andThen (throw e) f = throw e"
  by (rule ext) (simp add: andThen_def throw_def)

lemma run_spec_ret: "Q [] (Inr x) \<Longrightarrow> run_spec (ret x) h Q"
  by (simp add: run_spec_def ret_def)

lemma run_spec_throw: "Q [] (Inl e) \<Longrightarrow> run_spec (throw e) h Q"
  by (simp add: run_spec_def throw_def)

lemma run_spec_perform: "Q [ev] (answer h) \<Longrightarrow> run_spec (perform ev answer) h Q"
  by (simp add: run_spec_def perform_def)

lemma run_spec_pure_call: "Q [] r \<Longrightarrow> run_spec (pure_call r) h Q"
  by (simp add: run_spec_def pure_call_def)

lemma run_spec_andThen:
  assumes "run_spec m h (\<lambda>es r. case r of Inl e \<Rightarrow> Q es (Inl e)
             | Inr x \<Rightarrow> run_spec (f x) (h @ es) (\<lambda>es' r'. Q (es @ es') r'))"
  shows "run_spec (andThen m f) h Q"
proof -
  from assms obtain es where es: "fst (m h) = h @ es"
    and k: "case snd (m h) of Inl e \<Rightarrow> Q es (Inl e)
             | Inr x \<Rightarrow> run_spec (f x) (h @ es) (\<lambda>es' r'. Q (es @ es') r')"
    unfolding run_spec_def by blast
  show ?thesis
  proof (cases "snd (m h)")
    case (Inl e)
    with es k have "m h = (h @ es, Inl e)" "Q es (Inl e)" by (auto simp: prod_eq_iff)
    then show ?thesis by (auto simp: run_spec_def andThen_def)
  next
    case (Inr x)
    with es k have mh: "m h = (h @ es, Inr x)"
      and "run_spec (f x) (h @ es) (\<lambda>es' r'. Q (es @ es') r')" by (auto simp: prod_eq_iff)
    then obtain es' where "fst (f x (h @ es)) = (h @ es) @ es'" "Q (es @ es') (snd (f x (h @ es)))"
      unfolding run_spec_def by blast
    with mh show ?thesis by (auto simp: run_spec_def andThen_def)
  qed
qed

lemma run_spec_weaken:
  "run_spec m h P \<Longrightarrow> (\<And>es r. P es r \<Longrightarrow> Q es r) \<Longrightarrow> run_spec m h Q"
  unfolding run_spec_def by blast

lemma run_spec_call:
  "(case answer h of Inl e \<Rightarrow> Q [ev] (Inl e)
    | Inr x \<Rightarrow> run_spec (f x) (h @ [ev]) (\<lambda>es' r'. Q (ev # es') r'))
   \<Longrightarrow> run_spec (andThen (perform ev answer) f) h Q"
  by (rule run_spec_andThen, rule run_spec_perform) (simp split: sum.splits)

lemma run_spec_check:
  "(if b then run_spec (f ()) h Q else Q [] (Inl AssertionError))
   \<Longrightarrow> run_spec (andThen (expect_true b) f) h Q"
  by (simp add: expect_true_def run_spec_throw split: if_splits)

lemma run_specD:
  "run_spec m h Q \<Longrightarrow> fst (m h) = h @ calls_of m h \<and> Q (calls_of m h) (outcome m h)"
  by (auto simp: run_spec_def calls_of_def outcome_def)

subsection \<open>Batched offchain attestation\<close>

text \<open>
  C3. Batched attestation with the offchain signature style fails with the error
  "Offchain batch attestations are unsupported", whatever the requests, the other options
  and the collaborators are; the run makes no call at all before it fails, so nothing is
  signed.
\<close>

theorem batch_offchain_attestation_unsupported:
  "expectMultiAttestations W requests (options\<lparr>o_signatureType := Some Offchain\<rparr>) h =
     (h, Inl (Error ''Offchain batch attestations are unsupported''))"
  by (simp add: expectMultiAttestations_def expectMultiAttestations_Offchain_def Let_def
      throw_def)

subsection \<open>Proxy flows without a proxy\<close>

text \<open>
  C4. In each of the four orchestrators (single or batched attestation, single or batched
  revocation), a request with the delegated-proxy signature style for which the ledger
  interface reports no proxy fails with the error "Invalid proxy". The only call made
  is the query for the proxy: the run ends before the signer is obtained, before anything
  is signed or verified and before anything is submitted.
\<close>

theorem proxy_flow_requires_proxy:
  assumes "w_getEIP712Proxy W h = Inr None"
  shows
    "expectAttestation W schema request (aoptions\<lparr>o_signatureType := Some DelegatedProxy\<rparr>) h =
       (h @ [Call_getEIP712Proxy], Inl (Error ''Invalid proxy'')) \<and>
     expectMultiAttestations W requests (aoptions\<lparr>o_signatureType := Some DelegatedProxy\<rparr>) h =
       (h @ [Call_getEIP712Proxy], Inl (Error ''Invalid proxy'')) \<and>
     expectRevocation W schema revocation (roptions\<lparr>o_signatureType := Some DelegatedProxy\<rparr>) h =
       (h @ [Call_getEIP712Proxy], Inl (Error ''Invalid proxy'')) \<and>
     expectMultiRevocations W revocations (roptions\<lparr>o_signatureType := Some DelegatedProxy\<rparr>) h =
       (h @ [Call_getEIP712Proxy], Inl (Error ''Invalid proxy''))"
  using assms
  by (simp add: expectAttestation_def expectAttestation_DelegatedProxy_def
      expectMultiAttestations_def expectMultiAttestations_DelegatedProxy_def
      expectRevocation_def expectRevocation_DelegatedProxy_def
      expectMultiRevocations_def expectMultiRevocations_switch_def
      expectMultiRevocations_DelegatedProxy_def
      getEIP712Proxy_def Let_def andThen_def perform_def throw_def)

text \<open>
  The same four runs on the example ledger with no proxy configured.
\<close>

theorem proxy_flow_requires_proxy_example:
  "expectAttestation (example_world None 7 example_tx [] ''0xA11CE'') ''0x5c'' example_request
       (example_options\<lparr>o_signatureType := Some DelegatedProxy\<rparr>) [] =
       ([Call_getEIP712Proxy], Inl (Error ''Invalid proxy'')) \<and>
     expectMultiAttestations (example_world None 7 example_tx [] ''0xA11CE'')
       [\<lparr>mar_schema = ''0x5c'', mar_data = [example_request]\<rparr>]
       (example_options\<lparr>o_signatureType := Some DelegatedProxy\<rparr>) [] =
       ([Call_getEIP712Proxy], Inl (Error ''Invalid proxy'')) \<and>
     expectRevocation (example_world None 7 example_tx [] ''0xA11CE'') ''0x5c''
       \<lparr>rrd_uid = ''0x01'', rrd_value = None\<rparr>
       (example_revocation_options\<lparr>o_signatureType := Some DelegatedProxy\<rparr>) [] =
       ([Call_getEIP712Proxy], Inl (Error ''Invalid proxy'')) \<and>
     expectMultiRevocations (example_world None 7 example_tx [] ''0xA11CE'')
       [\<lparr>mrr_schema = ''0x5c'', mrr_data = [\<lparr>rrd_uid = ''0x01'', rrd_value = None\<rparr>]\<rparr>]
       (example_revocation_options\<lparr>o_signatureType := Some DelegatedProxy\<rparr>) [] =
       ([Call_getEIP712Proxy], Inl (Error ''Invalid proxy''))"
  using proxy_flow_requires_proxy [of "example_world None 7 example_tx [] ''0xA11CE''" "[]"
      "''0x5c''" example_request example_options
      "[\<lparr>mar_schema = ''0x5c'', mar_data = [example_request]\<rparr>]"
      "\<lparr>rrd_uid = ''0x01'', rrd_value = None\<rparr>" example_revocation_options
      "[\<lparr>mrr_schema = ''0x5c'', mrr_data = [\<lparr>rrd_uid = ''0x01'', rrd_value = None\<rparr>]\<rparr>]"]
  by (simp add: example_world_def)

subsection \<open>Batched offchain revocation\<close>

lemma andThen_ret_right [simp]: "andThen m ret = m"
  by (rule ext) (auto simp: andThen_def ret_def split: prod.splits sum.splits)

lemma expectFees_None [simp]: "expectFees mp mf None = ret ()"
  by (simp add: expectFees_def split: option.splits)

lemma expectItemsRevoked_queries:
  "run_spec (expectItemsRevoked W items) h (\<lambda>es r. list_all is_query es)"
proof (induction items arbitrary: h)
  case Nil
  show ?case by (simp add: run_spec_ret)
next
  case (Cons item rest)
  show ?case
    apply (simp only: expectItemsRevoked.simps call_defs)
    apply (rule run_spec_call, simp add: is_query_def split: sum.split, intro conjI allI impI)
    apply (rule run_spec_check, simp add: is_query_def, intro conjI allI impI)
    apply (rule run_spec_call, simp add: is_query_def split: sum.split, intro conjI allI impI)
    apply (rule run_spec_check, simp add: is_query_def, intro conjI allI impI)
    apply (rule run_spec_weaken[OF Cons.IH])
    apply (simp add: is_query_def)
    done
qed

lemma expectAllRevoked_queries:
  "run_spec (expectAllRevoked W requests) h (\<lambda>es r. list_all is_query es)"
proof (induction requests arbitrary: h)
  case Nil
  show ?case by (simp add: run_spec_ret)
next
  case (Cons r rest)
  show ?case
    apply (simp only: expectAllRevoked.simps)
    apply (rule run_spec_andThen)
    apply (rule run_spec_weaken[OF expectItemsRevoked_queries])
    apply (simp split: sum.split, intro conjI allI impI)
    apply (rule run_spec_weaken[OF Cons.IH])
    apply simp
    done
qed

lemma expectItemsRevoked_accepting:
  "w_isAttestationValid W = (\<lambda>h u. Inr True) \<Longrightarrow>
   w_isAttestationRevoked W = (\<lambda>h u. Inr True) \<Longrightarrow>
   snd (expectItemsRevoked W items h) = Inr ()"
  by (induction items arbitrary: h)
    (simp_all add: call_defs andThen_def perform_def expect_true_def ret_def)

lemma expectAllRevoked_accepting:
  "w_isAttestationValid W = (\<lambda>h u. Inr True) \<Longrightarrow>
   w_isAttestationRevoked W = (\<lambda>h u. Inr True) \<Longrightarrow>
   snd (expectAllRevoked W requests h) = Inr ()"
proof (induction requests arbitrary: h)
  case Nil
  show ?case by (simp add: ret_def)
next
  case (Cons r rest)
  from expectItemsRevoked_accepting [OF Cons.prems, of "mrr_data r" h]
  obtain h' where "expectItemsRevoked W (mrr_data r) h = (h', Inr ())"
    by (cases "expectItemsRevoked W (mrr_data r) h") auto
  with Cons.IH [OF Cons.prems, of h'] show ?case
    by (simp add: andThen_def)
qed

text \<open>
  C10. In \<^verbatim>\<open>expectMultiRevocations\<close> the switch has no case for the offchain signature
  style: the switch makes no call, raises no error and leaves \<^verbatim>\<open>tx\<close> undefined, so the
  whole run is the loop of expectations after the switch, and every call of the run is a
  validity or revocation query (nothing is signed, nothing is submitted). On a ledger that
  answers these queries with true the run ends without an error; an error can only come
  from these queries and their expectations. Batched offchain attestation, in contrast,
  throws its "unsupported" error.
\<close>

theorem batch_offchain_revocation_falls_through:
  "expectMultiRevocations_switch W requests Offchain deadline txSender overrides h =
     (h, Inr None) \<and>
   expectMultiRevocations W requests (options\<lparr>o_signatureType := Some Offchain\<rparr>) =
     expectAllRevoked W requests \<and>
   list_all is_query
     (calls_of (expectMultiRevocations W requests (options\<lparr>o_signatureType := Some Offchain\<rparr>))
        h) \<and>
   outcome
     (expectMultiRevocations
        (W\<lparr>w_isAttestationValid := \<lambda>h u. Inr True, w_isAttestationRevoked := \<lambda>h u. Inr True\<rparr>)
        requests (options\<lparr>o_signatureType := Some Offchain\<rparr>)) h = Inr () \<and>
   expectMultiAttestations W attestations (aoptions\<lparr>o_signatureType := Some Offchain\<rparr>) h =
     (h, Inl (Error ''Offchain batch attestations are unsupported''))"
proof -
  have sw: "expectMultiRevocations_switch W requests Offchain deadline txSender overrides h =
     (h, Inr None)"
    by (simp add: expectMultiRevocations_switch_def ret_def)
  have eq: "expectMultiRevocations W' requests (options\<lparr>o_signatureType := Some Offchain\<rparr>) =
     expectAllRevoked W' requests" for W'
    by (simp add: expectMultiRevocations_def expectMultiRevocations_switch_def Let_def)
  have q: "list_all is_query (calls_of (expectAllRevoked W requests) h)"
    using run_specD [OF expectAllRevoked_queries] by blast
  have ok: "outcome (expectAllRevoked
        (W\<lparr>w_isAttestationValid := \<lambda>h u. Inr True, w_isAttestationRevoked := \<lambda>h u. Inr True\<rparr>)
        requests) h = Inr ()"
    unfolding outcome_def by (rule expectAllRevoked_accepting) simp_all
  from sw q ok show ?thesis
    by (simp add: eq expectMultiAttestations_def expectMultiAttestations_Offchain_def Let_def
        throw_def)
qed

subsection \<open>Nonces of a delegated batch\<close>

lemma andThen_assoc: "andThen (andThen m f) g = andThen m (\<lambda>x. andThen (f x) g)"
  by (rule ext) (simp add: andThen_def split: prod.splits sum.splits)

lemma nonce_queries_simps [simp]:
  "nonce_queries [] = []"
  "nonce_queries (es @ es') = nonce_queries es @ nonce_queries es'"
  "nonce_queries (ev # es) = (case ev of Call_getNonce a \<Rightarrow> [a] | _ \<Rightarrow> []) @ nonce_queries es"
  by (simp_all add: nonce_queries_def)

lemma signed_attestations_simps [simp]:
  "signed_attestations [] = []"
  "signed_attestations (es @ es') = signed_attestations es @ signed_attestations es'"
  "signed_attestations (ev # es) =
     (case ev of Call_signDelegatedAttestation d ps s \<Rightarrow> [ps] | _ \<Rightarrow> []) @ signed_attestations es"
  by (simp_all add: signed_attestations_def)

lemma signed_revocations_simps [simp]:
  "signed_revocations [] = []"
  "signed_revocations (es @ es') = signed_revocations es @ signed_revocations es'"
  "signed_revocations (ev # es) =
     (case ev of Call_signDelegatedRevocation d ps s \<Rightarrow> [ps] | _ \<Rightarrow> []) @ signed_revocations es"
  by (simp_all add: signed_revocations_def)

lemma queries_sign_nothing:
  "list_all is_query es \<Longrightarrow>
     nonce_queries es = [] \<and> signed_attestations es = [] \<and> signed_revocations es = []"
  by (induction es) (auto simp: is_query_def split: event.splits)

lemma nonces_from_0 [simp]: "nonces_from n 0 = []"
  by (simp add: nonces_from_def)

lemma nonces_from_Suc: "nonces_from n (Suc N) = n # nonces_from (n + 1) N"
proof -
  have "[0..<Suc N] = 0 # map Suc [0..<N]"
    by (simp add: upt_conv_Cons map_Suc_upt del: upt_Suc)
  then show ?thesis by (simp add: nonces_from_def o_def)
qed

lemma nonces_from_add: "nonces_from n (a + b) = nonces_from n a @ nonces_from (n + int a) b"
proof (induction a arbitrary: n)
  case 0
  show ?case by simp
next
  case (Suc a)
  have "nonces_from n (Suc a + b) = n # nonces_from (n + 1) (a + b)"
    by (simp add: nonces_from_Suc)
  also have "\<dots> = n # nonces_from (n + 1) a @ nonces_from (n + 1 + int a) b"
    by (simp add: Suc.IH)
  finally show ?case by (simp add: nonces_from_Suc add.commute add.left_commute)
qed

lemma delegated_attestation_nonces:
  "map ap_nonce (delegated_attestation_params schema items n) = nonces_from n (length items)"
  by (induction items arbitrary: n) (simp_all add: nonces_from_Suc)

lemma batch_attestation_nonces:
  "map ap_nonce (batch_attestation_params requests n) =
     nonces_from n (length (concat (map mar_data requests)))"
  by (induction requests arbitrary: n)
    (simp_all add: delegated_attestation_nonces nonces_from_add)

lemma delegated_revocation_nonces:
  "map rp_nonce (delegated_revocation_params schema items n) = nonces_from n (length items)"
  by (induction items arbitrary: n) (simp_all add: nonces_from_Suc)

lemma batch_revocation_nonces:
  "map rp_nonce (batch_revocation_params requests n) =
     nonces_from n (length (concat (map mrr_data requests)))"
  by (induction requests arbitrary: n)
    (simp_all add: delegated_revocation_nonces nonces_from_add)

lemma signDelegatedAttestations_spec:
  "run_spec (signDelegatedAttestations W s schema items (acc, n)) h
     (\<lambda>es r. nonce_queries es = [] \<and>
        prefix (signed_attestations es) (delegated_attestation_params schema items n) \<and>
        (case r of Inl e \<Rightarrow> True
         | Inr (acc', n') \<Rightarrow>
             signed_attestations es = delegated_attestation_params schema items n \<and>
             n' = n + int (length items)))"
proof (induction items arbitrary: acc n h)
  case Nil
  show ?case by (simp add: run_spec_ret)
next
  case (Cons request rest)
  show ?case
    apply (simp only: signDelegatedAttestations.simps call_defs)
    apply (rule run_spec_call, simp split: sum.split, intro conjI allI impI)
    apply (rule run_spec_call, simp split: sum.split, intro conjI allI impI)
    apply (rule run_spec_call, simp split: sum.split, intro conjI allI impI)
    apply (rule run_spec_check, simp, intro conjI allI impI)
    apply (rule run_spec_weaken[OF Cons.IH])
    apply (auto split: sum.splits)
    done
qed

lemma multiDelegatedAttestationRequests_spec:
  "run_spec (multiDelegatedAttestationRequests W s requests (acc, n)) h
     (\<lambda>es r. nonce_queries es = [] \<and>
        prefix (signed_attestations es) (batch_attestation_params requests n) \<and>
        (case r of Inl e \<Rightarrow> True
         | Inr (acc', n') \<Rightarrow> signed_attestations es = batch_attestation_params requests n))"
proof (induction requests arbitrary: acc n h)
  case Nil
  show ?case by (simp add: run_spec_ret)
next
  case (Cons r rest)
  show ?case
    apply (simp only: multiDelegatedAttestationRequests.simps)
    apply (rule run_spec_andThen)
    apply (rule run_spec_weaken[OF signDelegatedAttestations_spec])
    subgoal for es ra
      apply (cases ra)
       apply simp
      apply clarsimp
      apply (rule run_spec_weaken[OF Cons.IH])
      apply (auto split: sum.splits)
      done
    done
qed

lemma expectAllValid_queries:
  "run_spec (expectAllValid W uids) h (\<lambda>es r. list_all is_query es)"
proof (induction uids arbitrary: h)
  case Nil
  show ?case by (simp add: run_spec_ret)
next
  case (Cons uid rest)
  show ?case
    apply (simp only: expectAllValid.simps call_defs)
    apply (rule run_spec_call, simp add: is_query_def split: sum.split, intro conjI allI impI)
    apply (rule run_spec_check, simp add: is_query_def, intro conjI allI impI)
    apply (rule run_spec_weaken[OF Cons.IH])
    apply (simp add: is_query_def)
    done
qed

lemma expectFees_silent: "run_spec (expectFees mp mf tx) h (\<lambda>es r. es = [])"
  by (auto simp: expectFees_def run_spec_def ret_def throw_def expect_true_def andThen_def
      split: option.splits)

lemma expectMultiAttestations_Delegated_spec:
  "run_spec (expectMultiAttestations W requests (options\<lparr>o_signatureType := Some Delegated\<rparr>)) h
    (\<lambda>es r. take 1 es = [Call_getNonce (address (o_from options))] \<and>
       nonce_queries es = [address (o_from options)] \<and>
       (case w_getNonce W h (address (o_from options)) of
          Inl e \<Rightarrow> es = [Call_getNonce (address (o_from options))] \<and> r = Inl e
        | Inr n \<Rightarrow>
            prefix (signed_attestations es) (batch_attestation_params requests n) \<and>
            (case r of Inl e \<Rightarrow> True
             | Inr u \<Rightarrow> signed_attestations es = batch_attestation_params requests n)))"
  apply (simp add: expectMultiAttestations_def expectMultiAttestations_Delegated_def Let_def
      andThen_assoc call_defs)
  apply (rule run_spec_call, simp split: sum.split, intro conjI allI impI)
  apply (rule run_spec_andThen)
  apply (rule run_spec_weaken[OF multiDelegatedAttestationRequests_spec])
  subgoal for n es ra
    apply (cases ra)
     apply simp
    apply (clarsimp simp: andThen_assoc)
    apply (rule run_spec_call, simp split: sum.split, intro conjI allI impI)
    apply (rule run_spec_call, simp split: sum.split, intro conjI allI impI)
    apply (rule run_spec_andThen)
    apply (rule run_spec_weaken[OF expectAllValid_queries])
    apply (clarsimp simp: queries_sign_nothing split: sum.split)
    apply (rule run_spec_weaken[OF expectFees_silent])
    apply (clarsimp simp: queries_sign_nothing split: sum.split)
    done
  done

lemma signDelegatedRevocations_spec:
  "run_spec (signDelegatedRevocations W s schema items (acc, n)) h
     (\<lambda>es r. nonce_queries es = [] \<and>
        prefix (signed_revocations es) (delegated_revocation_params schema items n) \<and>
        (case r of Inl e \<Rightarrow> True
         | Inr (acc', n') \<Rightarrow>
             signed_revocations es = delegated_revocation_params schema items n \<and>
             n' = n + int (length items)))"
proof (induction items arbitrary: acc n h)
  case Nil
  show ?case by (simp add: run_spec_ret)
next
  case (Cons request rest)
  show ?case
    apply (simp only: signDelegatedRevocations.simps call_defs)
    apply (rule run_spec_call, simp split: sum.split, intro conjI allI impI)
    apply (rule run_spec_call, simp split: sum.split, intro conjI allI impI)
    apply (rule run_spec_call, simp split: sum.split, intro conjI allI impI)
    apply (rule run_spec_check, simp, intro conjI allI impI)
    apply (rule run_spec_weaken[OF Cons.IH])
    apply (auto split: sum.splits)
    done
qed

lemma multiDelegatedRevocationRequests_spec:
  "run_spec (multiDelegatedRevocationRequests W s requests (acc, n)) h
     (\<lambda>es r. nonce_queries es = [] \<and>
        prefix (signed_revocations es) (batch_revocation_params requests n) \<and>
        (case r of Inl e \<Rightarrow> True
         | Inr (acc', n') \<Rightarrow> signed_revocations es = batch_revocation_params requests n))"
proof (induction requests arbitrary: acc n h)
  case Nil
  show ?case by (simp add: run_spec_ret)
next
  case (Cons r rest)
  show ?case
    apply (simp only: multiDelegatedRevocationRequests.simps)
    apply (rule run_spec_andThen)
    apply (rule run_spec_weaken[OF signDelegatedRevocations_spec])
    subgoal for es ra
      apply (cases ra)
       apply simp
      apply clarsimp
      apply (rule run_spec_weaken[OF Cons.IH])
      apply (auto split: sum.splits)
      done
    done
qed

lemma expectMultiRevocations_Delegated_spec:
  "run_spec (expectMultiRevocations W requests (options\<lparr>o_signatureType := Some Delegated\<rparr>)) h
    (\<lambda>es r. take 1 es = [Call_getNonce (address (o_from options))] \<and>
       nonce_queries es = [address (o_from options)] \<and>
       (case w_getNonce W h (address (o_from options)) of
          Inl e \<Rightarrow> es = [Call_getNonce (address (o_from options))] \<and> r = Inl e
        | Inr n \<Rightarrow>
            prefix (signed_revocations es) (batch_revocation_params requests n) \<and>
            (case r of Inl e \<Rightarrow> True
             | Inr u \<Rightarrow> signed_revocations es = batch_revocation_params requests n)))"
  apply (simp add: expectMultiRevocations_def expectMultiRevocations_switch_def
      expectMultiRevocations_Delegated_def Let_def andThen_assoc call_defs)
  apply (rule run_spec_call, simp split: sum.split, intro conjI allI impI)
  apply (rule run_spec_andThen)
  apply (rule run_spec_weaken[OF multiDelegatedRevocationRequests_spec])
  subgoal for n es ra
    apply (cases ra)
     apply simp
    apply (clarsimp simp: andThen_assoc)
    apply (rule run_spec_call, simp split: sum.split, intro conjI allI impI)
    apply (rule run_spec_andThen)
    apply (rule run_spec_weaken[OF expectAllRevoked_queries])
    apply (clarsimp simp: queries_sign_nothing split: sum.split)
    apply (rule run_spec_weaken[OF expectFees_silent])
    apply (clarsimp simp: queries_sign_nothing split: sum.split)
    done
  done

text \<open>
  C1. A delegated (non-proxy) batch, of attestations or of revocations, queries the nonce
  of the signer exactly once, as the first call of the run. When the query fails, the run
  ends there. When it answers \<open>n\<close>, the parameters handed to the signer are, in the order
  of the calls, a prefix of the items of the requests in request order with the nonces
  \<open>n, n + 1, \<dots>\<close>; a run that ends without an error has signed all \<open>N\<close> items, with the
  nonces \<open>n, \<dots>, n + N - 1\<close>. No nonce query stands between two items, since the one
  query is the first call.
\<close>

theorem delegated_batch_nonces:
  "(let run = expectMultiAttestations W requests (aoptions\<lparr>o_signatureType := Some Delegated\<rparr>);
        signer = address (o_from aoptions);
        calls = calls_of run h
    in fst (run h) = h @ calls \<and>
       take 1 calls = [Call_getNonce signer] \<and>
       nonce_queries calls = [signer] \<and>
       (case w_getNonce W h signer of
          Inl e \<Rightarrow> calls = [Call_getNonce signer] \<and> outcome run h = Inl e
        | Inr n \<Rightarrow>
            prefix (signed_attestations calls) (batch_attestation_params requests n) \<and>
            (case outcome run h of
               Inl e \<Rightarrow> True
             | Inr u \<Rightarrow> signed_attestations calls = batch_attestation_params requests n) \<and>
            map ap_nonce (batch_attestation_params requests n) =
              nonces_from n (length (concat (map mar_data requests))))) \<and>
   (let run = expectMultiRevocations W revocations (roptions\<lparr>o_signatureType := Some Delegated\<rparr>);
        signer = address (o_from roptions);
        calls = calls_of run h
    in fst (run h) = h @ calls \<and>
       take 1 calls = [Call_getNonce signer] \<and>
       nonce_queries calls = [signer] \<and>
       (case w_getNonce W h signer of
          Inl e \<Rightarrow> calls = [Call_getNonce signer] \<and> outcome run h = Inl e
        | Inr n \<Rightarrow>
            prefix (signed_revocations calls) (batch_revocation_params revocations n) \<and>
            (case outcome run h of
               Inl e \<Rightarrow> True
             | Inr u \<Rightarrow> signed_revocations calls = batch_revocation_params revocations n) \<and>
            map rp_nonce (batch_revocation_params revocations n) =
              nonces_from n (length (concat (map mrr_data revocations)))))"
proof -
  note a = run_specD [OF expectMultiAttestations_Delegated_spec, of W requests aoptions h]
  note r = run_specD [OF expectMultiRevocations_Delegated_spec, of W revocations roptions h]
  from a have "?thesis \<longleftrightarrow> True"
    unfolding Let_def
    apply (simp only: batch_attestation_nonces batch_revocation_nonces)
    using r
    apply (auto split: sum.splits)
    done
  then show ?thesis by simp
qed

text \<open>
  On the example ledger with nonce 7: two requests with three items in all are signed with
  the nonces 7, 8 and 9 after a single nonce query.
\<close>

theorem delegated_batch_nonces_example:
  "(let run = expectMultiAttestations (example_world None 7 example_tx [''0x01'', ''0x02'', ''0x03''] ''0xA11CE'')
        [\<lparr>mar_schema = ''0x5c'', mar_data = [example_request, example_request]\<rparr>,
         \<lparr>mar_schema = ''0x5d'', mar_data = [example_request]\<rparr>]
        (example_options\<lparr>o_signatureType := Some Delegated\<rparr>)
    in nonce_queries (calls_of run []) = [''0xA11CE''] \<and>
       map ap_nonce (signed_attestations (calls_of run [])) = [7, 8, 9] \<and>
       map ap_schema (signed_attestations (calls_of run [])) = [''0x5c'', ''0x5c'', ''0x5d''] \<and>
       outcome run [] = Inr ()) \<and>
   (let run = expectMultiRevocations (example_world None 7 example_tx [''0x01'', ''0x02'', ''0x03''] ''0xA11CE'')
        [\<lparr>mrr_schema = ''0x5c'', mrr_data = [\<lparr>rrd_uid = ''0x01'', rrd_value = None\<rparr>]\<rparr>,
         \<lparr>mrr_schema = ''0x5d'', mrr_data = [\<lparr>rrd_uid = ''0x02'', rrd_value = None\<rparr>,
            \<lparr>rrd_uid = ''0x03'', rrd_value = None\<rparr>]\<rparr>]
        (example_revocation_options\<lparr>o_signatureType := Some Delegated\<rparr>)
    in nonce_queries (calls_of run []) = [''0xA11CE''] \<and>
       map rp_nonce (signed_revocations (calls_of run [])) = [7, 8, 9] \<and>
       map rp_uid (signed_revocations (calls_of run [])) = [''0x01'', ''0x02'', ''0x03''] \<and>
       outcome run [] = Inr ())"
proof -
  let ?W = "example_world None 7 example_tx [''0x01'', ''0x02'', ''0x03''] ''0xA11CE''"
  let ?reqs = "[\<lparr>mar_schema = ''0x5c'', mar_data = [example_request, example_request]\<rparr>,
         \<lparr>mar_schema = ''0x5d'', mar_data = [example_request]\<rparr>]"
  let ?revs = "[\<lparr>mrr_schema = ''0x5c'', mrr_data = [\<lparr>rrd_uid = ''0x01'', rrd_value = None\<rparr>]\<rparr>,
         \<lparr>mrr_schema = ''0x5d'', mrr_data = [\<lparr>rrd_uid = ''0x02'', rrd_value = None\<rparr>,
            \<lparr>rrd_uid = ''0x03'', rrd_value = None\<rparr>]\<rparr>]"
  have oa: "outcome (expectMultiAttestations ?W ?reqs
      (example_options\<lparr>o_signatureType := Some Delegated\<rparr>)) [] = Inr ()"
    by (simp add: outcome_def expectMultiAttestations_def expectMultiAttestations_Delegated_def
        Let_def call_defs andThen_def perform_def ret_def expect_true_def example_world_def
        example_options_def expectFees_def)
  have orv: "outcome (expectMultiRevocations ?W ?revs
      (example_revocation_options\<lparr>o_signatureType := Some Delegated\<rparr>)) [] = Inr ()"
    by (simp add: outcome_def expectMultiRevocations_def expectMultiRevocations_switch_def
        expectMultiRevocations_Delegated_def
        Let_def call_defs andThen_def perform_def ret_def expect_true_def example_world_def
        example_revocation_options_def expectFees_def)
  have n: "w_getNonce ?W [] ''0xA11CE'' = Inr 7"
    by (simp add: example_world_def)
  have s: "address (o_from example_options) = ''0xA11CE''"
     "address (o_from example_revocation_options) = ''0xA11CE''"
    by (simp_all add: example_options_def example_revocation_options_def example_wallet_def)
  note t = delegated_batch_nonces [of ?W ?reqs example_options "[]" ?revs
      example_revocation_options, unfolded Let_def s n sum.case oa orv]
  from t have nq: "nonce_queries (calls_of (expectMultiAttestations ?W ?reqs
      (example_options\<lparr>o_signatureType := Some Delegated\<rparr>)) []) = [''0xA11CE'']"
    and sa: "signed_attestations (calls_of (expectMultiAttestations ?W ?reqs
      (example_options\<lparr>o_signatureType := Some Delegated\<rparr>)) []) =
        batch_attestation_params ?reqs 7"
    and nq': "nonce_queries (calls_of (expectMultiRevocations ?W ?revs
      (example_revocation_options\<lparr>o_signatureType := Some Delegated\<rparr>)) []) = [''0xA11CE'']"
    and sr: "signed_revocations (calls_of (expectMultiRevocations ?W ?revs
      (example_revocation_options\<lparr>o_signatureType := Some Delegated\<rparr>)) []) =
        batch_revocation_params ?revs 7"
    by blast+
  show ?thesis
    unfolding Let_def by (simp add: nq sa nq' sr oa orv)
qed

subsection \<open>Fee options that are zero\<close>

lemma make_overrides_dropped:
  "\<not> (truthy mp \<and> truthy mf) \<Longrightarrow> make_overrides mp mf = None"
  by (cases mp; cases mf) (auto simp: make_overrides_def)

lemma expectFees_dropped:
  "\<not> (truthy mp \<and> truthy mf) \<Longrightarrow> expectFees mp mf tx = ret ()"
  by (cases mp; cases mf; cases tx) (auto simp: expectFees_def)

text \<open>
  C9. When both fee options are supplied and at least one of them is the bigint zero, no
  overrides object is built, and each of the four orchestrators runs exactly as it does
  when neither fee option is supplied: the same calls with the same arguments and the same
  outcome, for every ledger and every history. The reason is that both the construction of
  the overrides and the final fee expectations test the fee options by truthiness.
\<close>

theorem zero_fee_drops_overrides:
  assumes "p = FeeBigint 0 \<or> f = FeeBigint 0"
  shows "make_overrides (Some p) (Some f) = None \<and>
    expectAttestation W schema request
        (aoptions\<lparr>o_maxPriorityFeePerGas := Some p, o_maxFeePerGas := Some f\<rparr>) =
      expectAttestation W schema request
        (aoptions\<lparr>o_maxPriorityFeePerGas := None, o_maxFeePerGas := None\<rparr>) \<and>
    expectMultiAttestations W requests
        (aoptions\<lparr>o_maxPriorityFeePerGas := Some p, o_maxFeePerGas := Some f\<rparr>) =
      expectMultiAttestations W requests
        (aoptions\<lparr>o_maxPriorityFeePerGas := None, o_maxFeePerGas := None\<rparr>) \<and>
    expectRevocation W schema revocation
        (roptions\<lparr>o_maxPriorityFeePerGas := Some p, o_maxFeePerGas := Some f\<rparr>) =
      expectRevocation W schema revocation
        (roptions\<lparr>o_maxPriorityFeePerGas := None, o_maxFeePerGas := None\<rparr>) \<and>
    expectMultiRevocations W revocations
        (roptions\<lparr>o_maxPriorityFeePerGas := Some p, o_maxFeePerGas := Some f\<rparr>) =
      expectMultiRevocations W revocations
        (roptions\<lparr>o_maxPriorityFeePerGas := None, o_maxFeePerGas := None\<rparr>)"
proof -
  from assms have n: "\<not> (truthy (Some p) \<and> truthy (Some f))" by auto
  have n': "\<not> (truthy None \<and> truthy None)" by simp
  note mo = make_overrides_dropped [OF n] make_overrides_dropped [OF n']
  note ef = expectFees_dropped [OF n] expectFees_dropped [OF n']
  have 1: "expectAttestation W schema request
        (aoptions\<lparr>o_maxPriorityFeePerGas := Some p, o_maxFeePerGas := Some f\<rparr>) =
      expectAttestation W schema request
        (aoptions\<lparr>o_maxPriorityFeePerGas := None, o_maxFeePerGas := None\<rparr>)"
    by (simp add: expectAttestation_def Let_def mo ef cong: SignatureType.case_cong)
  have 2: "expectMultiAttestations W requests
        (aoptions\<lparr>o_maxPriorityFeePerGas := Some p, o_maxFeePerGas := Some f\<rparr>) =
      expectMultiAttestations W requests
        (aoptions\<lparr>o_maxPriorityFeePerGas := None, o_maxFeePerGas := None\<rparr>)"
    by (simp add: expectMultiAttestations_def Let_def mo ef cong: SignatureType.case_cong)
  have 3: "expectRevocation W schema revocation
        (roptions\<lparr>o_maxPriorityFeePerGas := Some p, o_maxFeePerGas := Some f\<rparr>) =
      expectRevocation W schema revocation
        (roptions\<lparr>o_maxPriorityFeePerGas := None, o_maxFeePerGas := None\<rparr>)"
    by (simp add: expectRevocation_def Let_def mo ef cong: SignatureType.case_cong)
  have 4: "expectMultiRevocations W revocations
        (roptions\<lparr>o_maxPriorityFeePerGas := Some p, o_maxFeePerGas := Some f\<rparr>) =
      expectMultiRevocations W revocations
        (roptions\<lparr>o_maxPriorityFeePerGas := None, o_maxFeePerGas := None\<rparr>)"
    by (simp add: expectMultiRevocations_def Let_def mo ef)
  from mo(1) 1 2 3 4 show ?thesis by simp
qed

text \<open>A priority fee of zero with a maximum fee of 30, on the example ledger.\<close>

theorem zero_fee_drops_overrides_example:
  "FeeBigint 0 = FeeBigint 0 \<and>
   make_overrides (Some (FeeBigint 0)) (Some (FeeBigint 30)) = None \<and>
   expectRevocation (example_world None 7 example_tx [] ''0xA11CE'') ''0x5c''
       \<lparr>rrd_uid = ''0x01'', rrd_value = None\<rparr>
       (example_revocation_options\<lparr>o_maxPriorityFeePerGas := Some (FeeBigint 0),
          o_maxFeePerGas := Some (FeeBigint 30)\<rparr>) [] =
     expectRevocation (example_world None 7 example_tx [] ''0xA11CE'') ''0x5c''
       \<lparr>rrd_uid = ''0x01'', rrd_value = None\<rparr>
       (example_revocation_options\<lparr>o_maxPriorityFeePerGas := None, o_maxFeePerGas := None\<rparr>) []"
  using zero_fee_drops_overrides [of "FeeBigint 0" "FeeBigint 30"
      "example_world None 7 example_tx [] ''0xA11CE''" "''0x5c''" example_request
      example_options "[]" "\<lparr>rrd_uid = ''0x01'', rrd_value = None\<rparr>"
      example_revocation_options "[]"]
  by simp

subsection \<open>Properties of every call of a run\<close>

lemma emitsI: "(\<And>h. run_spec m h (\<lambda>es r. list_all P es)) \<Longrightarrow> emits P m"
  by (simp add: emits_def)

lemma emitsD: "emits P m \<Longrightarrow> run_spec m h (\<lambda>es r. list_all P es)"
  by (simp add: emits_def)

lemma emits_calls_of: "emits P m \<Longrightarrow> list_all P (calls_of m h)"
  using run_specD [OF emitsD] by blast

lemma emits_ret: "emits P (ret x)"
  by (simp add: emits_def run_spec_ret)

lemma emits_throw: "emits P (throw e)"
  by (simp add: emits_def run_spec_throw)

lemma emits_perform: "P ev \<Longrightarrow> emits P (perform ev answer)"
  by (simp add: emits_def run_spec_perform)

lemma emits_pure_call: "emits P (pure_call r)"
  by (simp add: emits_def run_spec_pure_call)

lemma emits_expect_true: "emits P (expect_true b)"
  by (simp add: expect_true_def emits_ret emits_throw)

lemma emits_expect_equal: "emits P (expect_equal a b)"
  by (simp add: expect_equal_def emits_ret emits_throw)

lemma emits_andThen_result:
  assumes m: "emits P m"
    and res: "\<And>h. run_spec m h (\<lambda>es r. case r of Inl e \<Rightarrow> True | Inr x \<Rightarrow> R x)"
    and f: "\<And>x. R x \<Longrightarrow> emits P (f x)"
  shows "emits P (andThen m f)"
proof (rule emitsI)
  fix h
  note a = run_specD [OF emitsD [OF m], of h] run_specD [OF res, of h]
  show "run_spec (andThen m f) h (\<lambda>es r. list_all P es)"
  proof (cases "outcome m h")
    case (Inl e)
    with a have "m h = (h @ calls_of m h, Inl e)" by (auto simp: outcome_def prod_eq_iff)
    with a show ?thesis by (auto simp: run_spec_def andThen_def)
  next
    case (Inr x)
    with a have mh: "m h = (h @ calls_of m h, Inr x)" and "R x"
      by (auto simp: outcome_def prod_eq_iff)
    from run_specD [OF emitsD [OF f [OF \<open>R x\<close>]], of "h @ calls_of m h"] a mh
    show ?thesis by (auto simp: run_spec_def andThen_def)
  qed
qed

lemma emits_andThen: "emits P m \<Longrightarrow> (\<And>x. emits P (f x)) \<Longrightarrow> emits P (andThen m f)"
  by (rule emits_andThen_result [where R = "\<lambda>_. True"])
    (auto simp: emits_def run_spec_def split: sum.splits)

lemma emits_case_option:
  "emits P a \<Longrightarrow> (\<And>y. emits P (b y)) \<Longrightarrow> emits P (case x of None \<Rightarrow> a | Some y \<Rightarrow> b y)"
  by (cases x) simp_all

lemma emits_case_prod: "(\<And>a b. emits P (f a b)) \<Longrightarrow> emits P (case x of (a, b) \<Rightarrow> f a b)"
  by (cases x) simp

lemma emits_case_flow:
  "(\<And>s. emits P (f s)) \<Longrightarrow> (\<And>r. emits P (g r))
   \<Longrightarrow> emits P (case x of Continue s \<Rightarrow> f s | Return r \<Rightarrow> g r)"
  by (cases x) simp_all

lemma emits_expectFees: "emits P (expectFees mp mf tx)"
  by (rule emitsI, rule run_spec_weaken [OF expectFees_silent]) simp

lemma emits_mono: "emits P m \<Longrightarrow> (\<And>ev. P ev \<Longrightarrow> Q ev) \<Longrightarrow> emits Q m"
  unfolding emits_def run_spec_def list_all_iff by blast

lemmas emits_steps = emits_andThen emits_perform emits_ret emits_throw emits_pure_call
  emits_expect_true emits_expect_equal emits_case_option emits_case_prod emits_case_flow
  emits_expectFees

lemma emits_expectAllValid:
  "(\<And>u. P (Call_isAttestationValid u)) \<Longrightarrow> emits P (expectAllValid W uids)"
  by (induction uids) (simp_all add: call_defs, (intro emits_steps | assumption)+)

lemma emits_expectItemsRevoked:
  "(\<And>u. P (Call_isAttestationValid u)) \<Longrightarrow> (\<And>u. P (Call_isAttestationRevoked u))
   \<Longrightarrow> emits P (expectItemsRevoked W items)"
  by (induction items) (simp_all add: call_defs, (intro emits_steps | assumption)+)

lemma emits_expectAllRevoked:
  "(\<And>u. P (Call_isAttestationValid u)) \<Longrightarrow> (\<And>u. P (Call_isAttestationRevoked u))
   \<Longrightarrow> emits P (expectAllRevoked W requests)"
  by (induction requests)
    (simp_all, (intro emits_steps emits_expectItemsRevoked | assumption)+)

lemma emits_expectProxyAttesters:
  "P Call_getEIP712Proxy \<Longrightarrow> (\<And>p u. P (Call_proxy_getAttester p u))
   \<Longrightarrow> emits P (expectProxyAttesters W s uids)"
proof (induction uids)
  case Nil
  show ?case by (simp add: emits_ret)
next
  case (Cons uid rest)
  show ?case
    unfolding expectProxyAttesters.simps call_defs
    by (intro emits_steps Cons)
qed

lemma emits_signDelegatedAttestations:
  assumes "P Call_getDelegated"
    and "\<And>d a r. P (Call_verifyDelegatedAttestationSignature d a r)"
    and "\<And>d n request. request \<in> set items \<Longrightarrow>
      P (Call_signDelegatedAttestation d
        \<lparr>ap_schema = schema, ap_recipient = ard_recipient request,
         ap_expirationTime = (case ard_expirationTime request of
                                None \<Rightarrow> NO_EXPIRATION | Some e \<Rightarrow> e),
         ap_revocable = (case ard_revocable request of None \<Rightarrow> True | Some r \<Rightarrow> r),
         ap_refUID = (case ard_refUID request of None \<Rightarrow> ZERO_BYTES32 | Some u \<Rightarrow> u),
         ap_data = ard_data request, ap_nonce = n\<rparr> s)"
  shows "emits P (signDelegatedAttestations W s schema items st)"
  using assms(3)
proof (induction items arbitrary: st)
  case Nil
  show ?case by (cases st) (simp add: emits_ret)
next
  case (Cons request rest)
  obtain responses nonce where st: "st = (responses, nonce)" by (cases st)
  show ?case
    unfolding st signDelegatedAttestations.simps call_defs
    by (intro emits_steps assms(1,2) Cons.IH Cons.prems) simp_all
qed

lemma emits_signDelegatedProxyAttestations:
  assumes "\<And>d a r. P (Call_verifyDelegatedProxyAttestationSignature d a r)"
    and "\<And>request. request \<in> set items \<Longrightarrow>
      P (Call_signDelegatedProxyAttestation delegated
        \<lparr>app_schema = schema, app_recipient = ard_recipient request,
         app_expirationTime = (case ard_expirationTime request of
                                 None \<Rightarrow> NO_EXPIRATION | Some e \<Rightarrow> e),
         app_revocable = (case ard_revocable request of None \<Rightarrow> True | Some r \<Rightarrow> r),
         app_refUID = (case ard_refUID request of None \<Rightarrow> ZERO_BYTES32 | Some u \<Rightarrow> u),
         app_data = ard_data request, app_deadline = deadline\<rparr> s)"
  shows "emits P (signDelegatedProxyAttestations W delegated s deadline schema items responses)"
  using assms(2)
proof (induction items arbitrary: responses)
  case Nil
  show ?case by (simp add: emits_ret)
next
  case (Cons request rest)
  show ?case
    unfolding signDelegatedProxyAttestations.simps call_defs
    by (intro emits_steps assms(1) Cons.IH Cons.prems) simp_all
qed

lemma emits_signDelegatedRevocations:
  assumes "P Call_getDelegated"
    and "\<And>d a r. P (Call_verifyDelegatedRevocationSignature d a r)"
    and "\<And>d ps. P (Call_signDelegatedRevocation d ps s)"
  shows "emits P (signDelegatedRevocations W s schema items st)"
proof (induction items arbitrary: st)
  case Nil
  show ?case by (cases st) (simp add: emits_ret)
next
  case (Cons request rest)
  obtain responses nonce where st: "st = (responses, nonce)" by (cases st)
  show ?case
    unfolding st signDelegatedRevocations.simps call_defs
    by (intro emits_steps assms Cons.IH)
qed

lemma emits_signDelegatedProxyRevocations:
  assumes "\<And>d a r. P (Call_verifyDelegatedProxyRevocationSignature d a r)"
    and "\<And>d ps. P (Call_signDelegatedProxyRevocation d ps s)"
  shows "emits P (signDelegatedProxyRevocations W delegated s deadline schema items responses)"
proof (induction items arbitrary: responses)
  case Nil
  show ?case by (simp add: emits_ret)
next
  case (Cons request rest)
  show ?case
    unfolding signDelegatedProxyRevocations.simps call_defs
    by (intro emits_steps assms Cons.IH)
qed

lemma emits_multiDelegatedAttestationRequests:
  assumes "P Call_getDelegated"
    and "\<And>d a r. P (Call_verifyDelegatedAttestationSignature d a r)"
    and "\<And>d n r request. r \<in> set requests \<Longrightarrow> request \<in> set (mar_data r) \<Longrightarrow>
      P (Call_signDelegatedAttestation d
        \<lparr>ap_schema = mar_schema r, ap_recipient = ard_recipient request,
         ap_expirationTime = (case ard_expirationTime request of
                                None \<Rightarrow> NO_EXPIRATION | Some e \<Rightarrow> e),
         ap_revocable = (case ard_revocable request of None \<Rightarrow> True | Some r \<Rightarrow> r),
         ap_refUID = (case ard_refUID request of None \<Rightarrow> ZERO_BYTES32 | Some u \<Rightarrow> u),
         ap_data = ard_data request, ap_nonce = n\<rparr> s)"
  shows "emits P (multiDelegatedAttestationRequests W s requests st)"
  using assms(3)
proof (induction requests arbitrary: st)
  case Nil
  show ?case by (cases st) (simp add: emits_ret)
next
  case (Cons r rest)
  obtain acc nonce where st: "st = (acc, nonce)" by (cases st)
  show ?case
    unfolding st multiDelegatedAttestationRequests.simps
    by (intro emits_steps emits_signDelegatedAttestations assms(1,2) Cons.IH Cons.prems)
      simp_all
qed

lemma emits_multiDelegatedProxyAttestationRequests:
  assumes "\<And>d a r. P (Call_verifyDelegatedProxyAttestationSignature d a r)"
    and "\<And>r request. r \<in> set requests \<Longrightarrow> request \<in> set (mar_data r) \<Longrightarrow>
      P (Call_signDelegatedProxyAttestation delegated
        \<lparr>app_schema = mar_schema r, app_recipient = ard_recipient request,
         app_expirationTime = (case ard_expirationTime request of
                                 None \<Rightarrow> NO_EXPIRATION | Some e \<Rightarrow> e),
         app_revocable = (case ard_revocable request of None \<Rightarrow> True | Some r \<Rightarrow> r),
         app_refUID = (case ard_refUID request of None \<Rightarrow> ZERO_BYTES32 | Some u \<Rightarrow> u),
         app_data = ard_data request, app_deadline = deadline\<rparr> s)"
  shows "emits P (multiDelegatedProxyAttestationRequests W delegated s deadline requests acc)"
  using assms(2)
proof (induction requests arbitrary: acc)
  case Nil
  show ?case by (simp add: emits_ret)
next
  case (Cons r rest)
  show ?case
    unfolding multiDelegatedProxyAttestationRequests.simps
    by (intro emits_steps emits_signDelegatedProxyAttestations assms(1) Cons.IH Cons.prems)
      simp_all
qed

lemma emits_multiDelegatedRevocationRequests:
  assumes "P Call_getDelegated"
    and "\<And>d a r. P (Call_verifyDelegatedRevocationSignature d a r)"
    and "\<And>d ps. P (Call_signDelegatedRevocation d ps s)"
  shows "emits P (multiDelegatedRevocationRequests W s requests st)"
proof (induction requests arbitrary: st)
  case Nil
  show ?case by (cases st) (simp add: emits_ret)
next
  case (Cons r rest)
  obtain acc nonce where st: "st = (acc, nonce)" by (cases st)
  show ?case
    unfolding st multiDelegatedRevocationRequests.simps
    by (intro emits_steps emits_signDelegatedRevocations assms Cons.IH)
qed

lemma emits_multiDelegatedProxyRevocationRequests:
  assumes "\<And>d a r. P (Call_verifyDelegatedProxyRevocationSignature d a r)"
    and "\<And>d ps. P (Call_signDelegatedProxyRevocation d ps s)"
  shows "emits P (multiDelegatedProxyRevocationRequests W delegated s deadline requests acc)"
proof (induction requests arbitrary: acc)
  case Nil
  show ?case by (simp add: emits_ret)
next
  case (Cons r rest)
  show ?case
    unfolding multiDelegatedProxyRevocationRequests.simps
    by (intro emits_steps emits_signDelegatedProxyRevocations assms Cons.IH)
qed

lemma run_spec_result:
  "emits (\<lambda>_. True) m \<Longrightarrow> R (outcome m h) \<Longrightarrow> run_spec m h (\<lambda>es r. R r)"
  using run_specD [OF emitsD, of "\<lambda>_. True" m h] by (auto simp: run_spec_def outcome_def)

lemma emits_any_signDelegatedAttestations:
  "emits (\<lambda>_. True) (signDelegatedAttestations W s schema items st)"
  by (rule emits_signDelegatedAttestations) simp_all

lemma emits_any_signDelegatedProxyAttestations:
  "emits (\<lambda>_. True) (signDelegatedProxyAttestations W d s deadline schema items responses)"
  by (rule emits_signDelegatedProxyAttestations) simp_all

lemma multiDelegatedAttestationRequests_data:
  "run_spec (multiDelegatedAttestationRequests W s requests (acc, n)) h
     (\<lambda>es r. case r of Inl e \<Rightarrow> True
        | Inr x \<Rightarrow> map mdar_data (fst x) = map mdar_data acc @ map mar_data requests)"
proof (induction requests arbitrary: acc n h)
  case Nil
  show ?case by (simp add: run_spec_ret)
next
  case (Cons r rest)
  show ?case
    unfolding multiDelegatedAttestationRequests.simps
    apply (rule run_spec_andThen)
    apply (rule run_spec_weaken [OF emitsD [OF emits_any_signDelegatedAttestations]])
    subgoal for es ra
      apply (cases ra)
       apply simp
      apply clarsimp
      apply (rule run_spec_weaken [OF Cons.IH])
      apply (auto split: sum.splits)
      done
    done
qed

lemma multiDelegatedProxyAttestationRequests_data:
  "run_spec (multiDelegatedProxyAttestationRequests W d s deadline requests acc) h
     (\<lambda>es r. case r of Inl e \<Rightarrow> True
        | Inr x \<Rightarrow> map mdpar_data x = map mdpar_data acc @ map mar_data requests)"
proof (induction requests arbitrary: acc h)
  case Nil
  show ?case by (simp add: run_spec_ret)
next
  case (Cons r rest)
  show ?case
    unfolding multiDelegatedProxyAttestationRequests.simps
    apply (rule run_spec_andThen)
    apply (rule run_spec_weaken [OF emitsD [OF emits_any_signDelegatedProxyAttestations]])
    subgoal for es ra
      apply (cases ra)
       apply simp
      apply clarsimp
      apply (rule run_spec_weaken [OF Cons.IH])
      apply (auto split: sum.splits)
      done
    done
qed

subsection \<open>Fee overrides\<close>

lemma carries_simps [simp]:
  "carries ov (Call_attest s ar ov') = (ov' = ov)"
  "carries ov (Call_attestByDelegation s dar ov') = (ov' = ov)"
  "carries ov (Call_attestByDelegationProxy s dpar ov') = (ov' = ov)"
  "carries ov (Call_multiAttest s mar)"
  "carries ov (Call_multiAttestByDelegation s mdar ov') = (ov' = ov)"
  "carries ov (Call_multiAttestByDelegationProxy s mdpar ov') = (ov' = ov)"
  "carries ov (Call_revoke s rr ov') = (ov' = ov)"
  "carries ov (Call_revokeByDelegation s drr ov') = (ov' = ov)"
  "carries ov (Call_revokeByDelegationProxy s dprr ov') = (ov' = ov)"
  "carries ov (Call_multiRevoke s mrr)"
  "carries ov (Call_multiRevokeByDelegation s mdrr ov') = (ov' = ov)"
  "carries ov (Call_multiRevokeByDelegationProxy s mdprr ov') = (ov' = ov)"
  "carries ov (Call_wait t)"
  "carries ov (Call_getNonce a)"
  "carries ov (Call_isAttestationValid u)"
  "carries ov (Call_isAttestationRevoked u)"
  "carries ov Call_getDelegated"
  "carries ov Call_getEIP712Proxy"
  "carries ov Call_getOffchain"
  "carries ov Call_latest"
  "carries ov (Call_proxy_getDelegated p)"
  "carries ov (Call_proxy_getAttester p u)"
  "carries ov (Call_signDelegatedAttestation d ap s)"
  "carries ov (Call_verifyDelegatedAttestationSignature d a rap)"
  "carries ov (Call_signDelegatedProxyAttestation d app s)"
  "carries ov (Call_verifyDelegatedProxyAttestationSignature d a rapp)"
  "carries ov (Call_signDelegatedRevocation d rp s)"
  "carries ov (Call_verifyDelegatedRevocationSignature d a rrp)"
  "carries ov (Call_signDelegatedProxyRevocation d rpp s)"
  "carries ov (Call_verifyDelegatedProxyRevocationSignature d a rrpp)"
  "carries ov (Call_signOffchainAttestation f oa s)"
  "carries ov (Call_verifyOffchainAttestationSignature f a soa)"
  by (simp_all add: carries_def)

lemmas emits_loops = emits_expectAllValid emits_expectAllRevoked emits_expectProxyAttesters
  emits_multiDelegatedAttestationRequests emits_multiDelegatedProxyAttestationRequests
  emits_multiDelegatedRevocationRequests emits_multiDelegatedProxyRevocationRequests

lemma expectAttestation_carries:
  "emits (carries (make_overrides (o_maxPriorityFeePerGas options) (o_maxFeePerGas options)))
     (expectAttestation W schema request options)"
proof -
  obtain t where t: "(case o_signatureType options of None \<Rightarrow> Direct | Some t \<Rightarrow> t) = t"
    by simp
  show ?thesis
    unfolding expectAttestation_def Let_def t
    by (cases t; simp only: SignatureType.case; unfold expectAttestation_Direct_def
        expectAttestation_Delegated_def expectAttestation_DelegatedProxy_def
        expectAttestation_Offchain_def call_defs; intro emits_steps emits_loops; simp)
qed

lemma expectMultiAttestations_carries:
  "emits (carries (make_overrides (o_maxPriorityFeePerGas options) (o_maxFeePerGas options)))
     (expectMultiAttestations W requests options)"
proof -
  obtain t where t: "(case o_signatureType options of None \<Rightarrow> Direct | Some t \<Rightarrow> t) = t"
    by simp
  show ?thesis
    unfolding expectMultiAttestations_def Let_def t
    by (cases t; simp only: SignatureType.case; unfold expectMultiAttestations_Direct_def
        expectMultiAttestations_Delegated_def expectMultiAttestations_DelegatedProxy_def
        expectMultiAttestations_Offchain_def call_defs; intro emits_steps emits_loops; simp)
qed

lemma expectRevocation_carries:
  "emits (carries (make_overrides (o_maxPriorityFeePerGas options) (o_maxFeePerGas options)))
     (expectRevocation W schema request options)"
proof -
  obtain t where t: "(case o_signatureType options of None \<Rightarrow> Direct | Some t \<Rightarrow> t) = t"
    by simp
  show ?thesis
    unfolding expectRevocation_def Let_def t
    by (cases t; simp only: SignatureType.case; unfold expectRevocation_Direct_def
        expectRevocation_Delegated_def expectRevocation_DelegatedProxy_def
        call_defs; intro emits_steps emits_loops; simp)
qed

lemma expectMultiRevocations_carries:
  "emits (carries (make_overrides (o_maxPriorityFeePerGas options) (o_maxFeePerGas options)))
     (expectMultiRevocations W requests options)"
proof -
  obtain t where t: "(case o_signatureType options of None \<Rightarrow> Direct | Some t \<Rightarrow> t) = t"
    by simp
  show ?thesis
    unfolding expectMultiRevocations_def expectMultiRevocations_switch_def Let_def t
    by (cases t; simp only: SignatureType.case; (unfold expectMultiRevocations_Direct_def
        expectMultiRevocations_Delegated_def expectMultiRevocations_DelegatedProxy_def
        call_defs)?; intro emits_steps emits_loops; simp)
qed

lemma digit_char_value: "d < 10 \<Longrightarrow> of_char (digit_char d) = 48 + d"
  by (simp add: digit_char_def)

lemma digits_value_snoc:
  "digits_value (ds @ [c]) = 10 * digits_value ds + (of_char c - 48)"
  by (simp add: digits_value_def)

lemma digits_value_nat_toString: "digits_value (nat_toString n) = n"
proof (induction n rule: nat_toString.induct)
  case (1 n)
  show ?case
  proof (cases "n < 10")
    case True
    then show ?thesis
      by (subst nat_toString.simps) (simp add: digits_value_def digit_char_value)
  next
    case False
    with 1 have "digits_value (nat_toString (n div 10)) = n div 10" by simp
    with False show ?thesis
      by (subst nat_toString.simps) (simp add: digits_value_snoc digit_char_value)
  qed
qed

lemma nat_toString_inject: "nat_toString a = nat_toString b \<Longrightarrow> a = b"
  by (metis digits_value_nat_toString)

lemma digit_char_not_minus: "d < 10 \<Longrightarrow> digit_char d \<noteq> CHR ''-''"
proof
  assume "d < 10" "digit_char d = CHR ''-''"
  then have "of_char (digit_char d) = (of_char CHR ''-'' :: nat)" by simp
  with \<open>d < 10\<close> show False by (simp add: digit_char_value)
qed

lemma nat_toString_hd: "\<exists>c cs. nat_toString n = c # cs \<and> c \<noteq> CHR ''-''"
proof (induction n rule: nat_toString.induct)
  case (1 n)
  show ?case
  proof (cases "n < 10")
    case True
    then show ?thesis
      by (subst nat_toString.simps) (simp add: digit_char_not_minus)
  next
    case False
    with 1 obtain c cs where "nat_toString (n div 10) = c # cs" "c \<noteq> CHR ''-''" by blast
    with False show ?thesis
      by (subst nat_toString.simps) simp
  qed
qed

lemma bigint_toString_inject: "(bigint_toString a = bigint_toString b) = (a = b)"
proof
  assume eq: "bigint_toString a = bigint_toString b"
  obtain c cs where a: "nat_toString (nat a) = c # cs" "c \<noteq> CHR ''-''"
    using nat_toString_hd by blast
  obtain d ds where b: "nat_toString (nat b) = d # ds" "d \<noteq> CHR ''-''"
    using nat_toString_hd by blast
  consider "a < 0" "b < 0" | "\<not> a < 0" "\<not> b < 0" | "a < 0" "\<not> b < 0" | "\<not> a < 0" "b < 0"
    by blast
  then show "a = b"
  proof cases
    case 1
    with eq have "nat (- a) = nat (- b)"
      by (auto simp: bigint_toString_def dest: nat_toString_inject)
    with 1 show ?thesis by simp
  next
    case 2
    with eq have "nat a = nat b"
      by (auto simp: bigint_toString_def dest: nat_toString_inject)
    with 2 show ?thesis by simp
  next
    case 3
    with eq b show ?thesis by (simp add: bigint_toString_def)
  next
    case 4
    with eq a show ?thesis by (simp add: bigint_toString_def)
  qed
qed simp

text \<open>
  C2 (as amended). The overrides object is built when both fee options are present and
  truthy, that is, each is a bigint other than zero or a promise; it then holds both
  fees, each as \<^verbatim>\<open>toString()\<close> renders it, and for a bigint that is its decimal string,
  from which the number is recovered. When a fee option is absent, or is the bigint zero,
  no overrides object is built at all. In every run of the four orchestrators, every
  submission call that takes an overrides argument is handed exactly this object (or its
  absence).
\<close>

theorem fee_overrides_passed_when_truthy:
  "make_overrides (Some p) (Some f) =
     (if fee_truthy p \<and> fee_truthy f
      then Some \<lparr>ov_maxPriorityFeePerGas = fee_toString p, ov_maxFeePerGas = fee_toString f\<rparr>
      else None) \<and>
   make_overrides None mf = None \<and>
   make_overrides mp None = None \<and>
   fee_truthy (FeeBigint a) = (a \<noteq> 0) \<and>
   fee_toString (FeeBigint a) = bigint_toString a \<and>
   (bigint_toString a = bigint_toString b) = (a = b) \<and>
   list_all
     (carries (make_overrides (o_maxPriorityFeePerGas aoptions) (o_maxFeePerGas aoptions)))
     (calls_of (expectAttestation W schema request aoptions) h) \<and>
   list_all
     (carries (make_overrides (o_maxPriorityFeePerGas aoptions) (o_maxFeePerGas aoptions)))
     (calls_of (expectMultiAttestations W requests aoptions) h) \<and>
   list_all
     (carries (make_overrides (o_maxPriorityFeePerGas roptions) (o_maxFeePerGas roptions)))
     (calls_of (expectRevocation W schema revocation roptions) h) \<and>
   list_all
     (carries (make_overrides (o_maxPriorityFeePerGas roptions) (o_maxFeePerGas roptions)))
     (calls_of (expectMultiRevocations W revocations roptions) h)"
proof -
  have 1: "make_overrides (Some p) (Some f) =
     (if fee_truthy p \<and> fee_truthy f
      then Some \<lparr>ov_maxPriorityFeePerGas = fee_toString p, ov_maxFeePerGas = fee_toString f\<rparr>
      else None)"
    by (simp add: make_overrides_def)
  have 2: "make_overrides None mf = None"
    by (simp add: make_overrides_def)
  have 3: "make_overrides mp None = None"
    by (cases mp) (simp_all add: make_overrides_def)
  have 4: "fee_truthy (FeeBigint a) = (a \<noteq> 0)" "fee_toString (FeeBigint a) = bigint_toString a"
    by simp_all
  note 5 = bigint_toString_inject [of a b]
  note 6 = emits_calls_of [OF expectAttestation_carries, of aoptions W schema request h]
    emits_calls_of [OF expectMultiAttestations_carries, of aoptions W requests h]
    emits_calls_of [OF expectRevocation_carries, of roptions W schema revocation h]
    emits_calls_of [OF expectMultiRevocations_carries, of roptions W revocations h]
  from 1 2 3 4 5 6 show ?thesis by blast
qed

lemma bigint_toString_examples:
  "bigint_toString 2 = ''2''" "bigint_toString 30 = ''30''"
  by code_simp+

text \<open>
  Fees 2 and 30 on the example ledger: the direct revocation is submitted with the
  overrides "2" and "30", and the run ends without an error.
\<close>

theorem fee_overrides_passed_example:
  "calls_of (expectRevocation (example_world None 7 example_fee_tx [] ''0xA11CE'') ''0x5c''
       \<lparr>rrd_uid = ''0x01'', rrd_value = None\<rparr>
       (example_revocation_options\<lparr>o_maxPriorityFeePerGas := Some (FeeBigint 2),
          o_maxFeePerGas := Some (FeeBigint 30)\<rparr>)) [] =
     [Call_revoke example_wallet
        \<lparr>rr_schema = ''0x5c'', rr_data = \<lparr>rrd_uid = ''0x01'', rrd_value = Some 0\<rparr>\<rparr>
        (Some \<lparr>ov_maxPriorityFeePerGas = ''2'', ov_maxFeePerGas = ''30''\<rparr>),
      Call_isAttestationRevoked ''0x01''] \<and>
   outcome (expectRevocation (example_world None 7 example_fee_tx [] ''0xA11CE'') ''0x5c''
       \<lparr>rrd_uid = ''0x01'', rrd_value = None\<rparr>
       (example_revocation_options\<lparr>o_maxPriorityFeePerGas := Some (FeeBigint 2),
          o_maxFeePerGas := Some (FeeBigint 30)\<rparr>)) [] = Inr ()"
  using fee_overrides_passed_when_truthy [of "FeeBigint 2" "FeeBigint 30" None None 2 30
      example_options "example_world None 7 example_fee_tx [] ''0xA11CE''" "''0x5c''"
      example_request "[]" "[]"
      "example_revocation_options\<lparr>o_maxPriorityFeePerGas := Some (FeeBigint 2),
          o_maxFeePerGas := Some (FeeBigint 30)\<rparr>" "\<lparr>rrd_uid = ''0x01'', rrd_value = None\<rparr>" "[]"]
  by (simp add: calls_of_def outcome_def expectRevocation_def expectRevocation_Direct_def
      Let_def call_defs andThen_def perform_def ret_def expect_true_def example_world_def
      example_revocation_options_def expectFees_def make_overrides_def example_fee_tx_def
      bigint_toString_examples)

text \<open>
  C2 as stated fails: with both fee options present, the priority fee being 0 and the
  maximum fee 30, the direct revocation is submitted without overrides.
\<close>

theorem fee_overrides_dropped_at_zero:
  "o_maxPriorityFeePerGas (example_revocation_options\<lparr>o_maxPriorityFeePerGas := Some (FeeBigint 0),
          o_maxFeePerGas := Some (FeeBigint 30)\<rparr>) = Some (FeeBigint 0) \<and>
   o_maxFeePerGas (example_revocation_options\<lparr>o_maxPriorityFeePerGas := Some (FeeBigint 0),
          o_maxFeePerGas := Some (FeeBigint 30)\<rparr>) = Some (FeeBigint 30) \<and>
   calls_of (expectRevocation (example_world None 7 example_tx [] ''0xA11CE'') ''0x5c''
       \<lparr>rrd_uid = ''0x01'', rrd_value = None\<rparr>
       (example_revocation_options\<lparr>o_maxPriorityFeePerGas := Some (FeeBigint 0),
          o_maxFeePerGas := Some (FeeBigint 30)\<rparr>)) [] =
     [Call_revoke example_wallet
        \<lparr>rr_schema = ''0x5c'', rr_data = \<lparr>rrd_uid = ''0x01'', rrd_value = Some 0\<rparr>\<rparr> None,
      Call_isAttestationRevoked ''0x01'']"
  by (simp add: calls_of_def expectRevocation_def expectRevocation_Direct_def
      Let_def call_defs andThen_def perform_def ret_def expect_true_def example_world_def
      example_revocation_options_def expectFees_def make_overrides_def)

subsection \<open>Defaults of an attestation request\<close>

lemma expectAttestation_uses_resolved:
  "emits (uses_resolved request) (expectAttestation W schema request options)"
proof -
  obtain t where t: "(case o_signatureType options of None \<Rightarrow> Direct | Some t \<Rightarrow> t) = t"
    by simp
  show ?thesis
    unfolding expectAttestation_def Let_def t
    by (cases t; simp only: SignatureType.case; unfold expectAttestation_Direct_def
        expectAttestation_Delegated_def expectAttestation_DelegatedProxy_def
        expectAttestation_Offchain_def call_defs; intro emits_steps emits_loops;
        simp add: uses_resolved_def resolved_request_def request_data_def signs_resolved_def)
qed

lemma signs_resolved_item:
  "signs_resolved request (ard_recipient request)
     (case ard_expirationTime request of None \<Rightarrow> NO_EXPIRATION | Some e \<Rightarrow> e)
     (case ard_revocable request of None \<Rightarrow> True | Some r \<Rightarrow> r)
     (case ard_refUID request of None \<Rightarrow> ZERO_BYTES32 | Some u \<Rightarrow> u)
     (ard_data request)"
  by (simp add: signs_resolved_def resolved_request_def)

lemma batch_uses_resolved_simps:
  "r \<in> set requests \<Longrightarrow> request \<in> set (mar_data r) \<Longrightarrow>
     batch_uses_resolved requests (Call_signDelegatedAttestation d
        \<lparr>ap_schema = schema, ap_recipient = ard_recipient request,
         ap_expirationTime = (case ard_expirationTime request of
                                None \<Rightarrow> NO_EXPIRATION | Some e \<Rightarrow> e),
         ap_revocable = (case ard_revocable request of None \<Rightarrow> True | Some r \<Rightarrow> r),
         ap_refUID = (case ard_refUID request of None \<Rightarrow> ZERO_BYTES32 | Some u \<Rightarrow> u),
         ap_data = ard_data request, ap_nonce = n\<rparr> s)"
  "r \<in> set requests \<Longrightarrow> request \<in> set (mar_data r) \<Longrightarrow>
     batch_uses_resolved requests (Call_signDelegatedProxyAttestation d
        \<lparr>app_schema = schema, app_recipient = ard_recipient request,
         app_expirationTime = (case ard_expirationTime request of
                                 None \<Rightarrow> NO_EXPIRATION | Some e \<Rightarrow> e),
         app_revocable = (case ard_revocable request of None \<Rightarrow> True | Some r \<Rightarrow> r),
         app_refUID = (case ard_refUID request of None \<Rightarrow> ZERO_BYTES32 | Some u \<Rightarrow> u),
         app_data = ard_data request, app_deadline = deadline\<rparr> s)"
  using signs_resolved_item [of request] by (auto simp: batch_uses_resolved_def)

lemma expectMultiAttestations_Delegated_uses_resolved:
  "emits (batch_uses_resolved requests) (expectMultiAttestations_Delegated W requests s ov)"
  unfolding expectMultiAttestations_Delegated_def call_defs
  apply (rule emits_andThen)
   apply (rule emits_perform, simp add: batch_uses_resolved_def)
  apply (rule emits_andThen_result
      [where R = "\<lambda>x. map mdar_data (fst x) = map mar_data requests"])
    apply (rule emits_multiDelegatedAttestationRequests)
      apply (simp add: batch_uses_resolved_def)
     apply (simp add: batch_uses_resolved_def)
    apply (erule (1) batch_uses_resolved_simps)
  subgoal for nonce h
    by (rule run_spec_weaken [OF multiDelegatedAttestationRequests_data])
      (auto split: sum.splits)
  subgoal for nonce x
    by (cases x; simp; intro emits_steps) (simp_all add: batch_uses_resolved_def)
  done

lemma expectMultiAttestations_DelegatedProxy_uses_resolved:
  "emits (batch_uses_resolved requests)
     (expectMultiAttestations_DelegatedProxy W requests deadline s ov)"
  unfolding expectMultiAttestations_DelegatedProxy_def call_defs
  apply (rule emits_andThen)
   apply (rule emits_perform, simp add: batch_uses_resolved_def)
  apply (rule emits_case_option)
   apply (rule emits_throw)
  apply (rule emits_andThen)
   apply (rule emits_perform, simp add: batch_uses_resolved_def)
  apply (rule emits_andThen_result
      [where R = "\<lambda>x. map mdpar_data x = map mar_data requests"])
    apply (rule emits_multiDelegatedProxyAttestationRequests)
     apply (simp add: batch_uses_resolved_def)
    apply (erule (1) batch_uses_resolved_simps)
  subgoal for proxy delegated h
    by (rule run_spec_weaken [OF multiDelegatedProxyAttestationRequests_data])
      (auto split: sum.splits)
  subgoal for proxy delegated x
    by (intro emits_steps emits_loops) (simp_all add: batch_uses_resolved_def)
  done

lemma expectMultiAttestations_uses_resolved:
  "emits (batch_uses_resolved requests) (expectMultiAttestations W requests options)"
proof -
  obtain t where t: "(case o_signatureType options of None \<Rightarrow> Direct | Some t \<Rightarrow> t) = t"
    by simp
  have sw: "emits (batch_uses_resolved requests)
     (case t of
        Direct \<Rightarrow> expectMultiAttestations_Direct W requests s
      | Delegated \<Rightarrow> expectMultiAttestations_Delegated W requests s ov
      | DelegatedProxy \<Rightarrow> expectMultiAttestations_DelegatedProxy W requests deadline s ov
      | Offchain \<Rightarrow> expectMultiAttestations_Offchain)" for s ov deadline
  proof (cases t)
    case Direct
    show ?thesis
      unfolding Direct SignatureType.case expectMultiAttestations_Direct_def call_defs
      by (intro emits_steps) (simp_all add: batch_uses_resolved_def)
  next
    case Delegated
    then show ?thesis by (simp add: expectMultiAttestations_Delegated_uses_resolved)
  next
    case DelegatedProxy
    then show ?thesis by (simp add: expectMultiAttestations_DelegatedProxy_uses_resolved)
  next
    case Offchain
    then show ?thesis by (simp add: expectMultiAttestations_Offchain_def emits_throw)
  qed
  show ?thesis
    unfolding expectMultiAttestations_def Let_def t
    by (intro emits_steps emits_loops sw) (simp_all add: batch_uses_resolved_def)
qed

text \<open>
  C8 (as amended). In \<^verbatim>\<open>expectAttestation\<close> every submission carries the request with
  each omitted optional field replaced by its default, and every signer is handed those
  fields: no expiration (0) for \<^verbatim>\<open>expirationTime\<close>, true for \<^verbatim>\<open>revocable\<close>, the
  all-zero 32-byte identifier for \<^verbatim>\<open>refUID\<close> and 0 for \<^verbatim>\<open>value\<close>; a field that is
  given is kept. In \<^verbatim>\<open>expectMultiAttestations\<close> the parameters handed to the delegated
  and delegated-proxy signers are the resolved fields of an item of the batch, and every
  submission carries the items as they were given.
\<close>

theorem attestation_defaults_where_resolved:
  "list_all (uses_resolved request)
     (calls_of (expectAttestation W schema request aoptions) h) \<and>
   list_all (batch_uses_resolved requests)
     (calls_of (expectMultiAttestations W requests aoptions) h) \<and>
   resolved_request
     \<lparr>ard_recipient = recipient, ard_data = data, ard_expirationTime = None,
      ard_revocable = None, ard_refUID = None, ard_value = None\<rparr> =
     \<lparr>ard_recipient = recipient, ard_data = data, ard_expirationTime = Some 0,
      ard_revocable = Some True,
      ard_refUID = Some ''0x0000000000000000000000000000000000000000000000000000000000000000'',
      ard_value = Some 0\<rparr> \<and>
   resolved_request
     \<lparr>ard_recipient = recipient, ard_data = data, ard_expirationTime = Some e,
      ard_revocable = Some rv, ard_refUID = Some u, ard_value = Some v\<rparr> =
     \<lparr>ard_recipient = recipient, ard_data = data, ard_expirationTime = Some e,
      ard_revocable = Some rv, ard_refUID = Some u, ard_value = Some v\<rparr>"
proof -
  have z: "ZERO_BYTES32 = ''0x0000000000000000000000000000000000000000000000000000000000000000''"
    by (simp add: ZERO_BYTES32_def eval_nat_numeral)
  show ?thesis
    by (simp add: emits_calls_of [OF expectAttestation_uses_resolved]
        emits_calls_of [OF expectMultiAttestations_uses_resolved]
        resolved_request_def NO_EXPIRATION_def z)
qed

text \<open>
  A request that omits all four optional fields, attested directly on the example ledger.
\<close>

theorem attestation_defaults_example:
  "calls_of (expectAttestation (example_world None 7 example_tx [''0x01''] ''0xA11CE'')
       ''0x5c'' example_request example_options) [] =
     [Call_attest example_wallet
        \<lparr>ar_schema = ''0x5c'',
         ar_data = \<lparr>ard_recipient = ''0xB0B'', ard_data = ''0x1234'',
           ard_expirationTime = Some 0, ard_revocable = Some True,
           ard_refUID =
             Some ''0x0000000000000000000000000000000000000000000000000000000000000000'',
           ard_value = Some 0\<rparr>\<rparr> None,
      Call_wait example_tx, Call_isAttestationValid ''0x01'']"
  using attestation_defaults_where_resolved [of example_request
      "example_world None 7 example_tx [''0x01''] ''0xA11CE''" "''0x5c''" example_options "[]"
      "[]" "''0xB0B''" "''0x1234''" 0 True "''''" 0]
  by (simp add: calls_of_def expectAttestation_def expectAttestation_Direct_def
      Let_def call_defs andThen_def perform_def ret_def expect_true_def example_world_def
      example_options_def expectFees_def make_overrides_def example_request_def
      request_data_def hd_uid_def NO_EXPIRATION_def ZERO_BYTES32_def eval_nat_numeral)

text \<open>
  C8 as stated fails: in a delegated batch on the example ledger, the item that omits
  \<^verbatim>\<open>value\<close> (and the other optional fields) is signed with the defaults of the three
  signed fields, but reaches \<^verbatim>\<open>multiAttestByDelegation\<close> with its value and its other
  optional fields still omitted.
\<close>

theorem batch_items_not_resolved:
  "ard_value example_request = None \<and>
   calls_of (expectMultiAttestations (example_world None 7 example_tx [''0x01''] ''0xA11CE'')
       [\<lparr>mar_schema = ''0x5c'', mar_data = [example_request]\<rparr>]
       (example_options\<lparr>o_signatureType := Some Delegated\<rparr>)) [] =
     [Call_getNonce ''0xA11CE'',
      Call_getDelegated,
      Call_signDelegatedAttestation 1
        \<lparr>ap_schema = ''0x5c'', ap_recipient = ''0xB0B'', ap_expirationTime = 0,
         ap_revocable = True,
         ap_refUID = ''0x0000000000000000000000000000000000000000000000000000000000000000'',
         ap_data = ''0x1234'', ap_nonce = 7\<rparr> example_wallet,
      Call_verifyDelegatedAttestationSignature 1 ''0xA11CE''
        \<lparr>res_message =
           \<lparr>ap_schema = ''0x5c'', ap_recipient = ''0xB0B'', ap_expirationTime = 0,
            ap_revocable = True,
            ap_refUID = ''0x0000000000000000000000000000000000000000000000000000000000000000'',
            ap_data = ''0x1234'', ap_nonce = 7\<rparr>,
         res_signature = example_signature\<rparr>,
      Call_multiAttestByDelegation example_wallet
        [\<lparr>mdar_schema = ''0x5c'',
          mdar_data = [\<lparr>ard_recipient = ''0xB0B'', ard_data = ''0x1234'',
             ard_expirationTime = None, ard_revocable = None, ard_refUID = None,
             ard_value = None\<rparr>],
          mdar_signatures = [example_signature], mdar_attester = ''0xA11CE''\<rparr>] None,
      Call_wait example_tx, Call_isAttestationValid ''0x01'']"
  by (simp add: calls_of_def expectMultiAttestations_def expectMultiAttestations_Delegated_def
      Let_def call_defs andThen_def perform_def ret_def expect_true_def example_world_def
      example_options_def expectFees_def make_overrides_def example_request_def
      example_wallet_def NO_EXPIRATION_def ZERO_BYTES32_def eval_nat_numeral)

subsection \<open>Offchain attestations\<close>

lemma andThen_perform_eq:
  "andThen (perform ev answer) f h =
     (case answer h of Inl e \<Rightarrow> (h @ [ev], Inl e) | Inr x \<Rightarrow> f x (h @ [ev]))"
  by (simp add: andThen_def perform_def)

lemma andThen_pure_call_eq:
  "andThen (pure_call r) f h = (case r of Inl e \<Rightarrow> (h, Inl e) | Inr x \<Rightarrow> f x h)"
  by (simp add: andThen_def pure_call_def)

lemma andThen_expect_true_eq:
  "andThen (expect_true b) f = (if b then f () else throw AssertionError)"
  by (simp add: expect_true_def)

lemma andThen_expect_equal_eq:
  "andThen (expect_equal a b) f = (if a = b then f () else throw AssertionError)"
  by (simp add: expect_equal_def)

lemma expectAttestation_Offchain_run:
  assumes "w_getOffchain W h = Inr offchain"
    and "w_latest W (h @ [Call_getOffchain]) = Inr now"
    and "w_getOffchainUID W OFFCHAIN_ATTESTATION_VERSION schema recipient now expirationTime
           revocable refUID data = Inr uid"
    and "w_signOffchainAttestation W (h @ [Call_getOffchain, Call_latest]) offchain
           \<lparr>oa_version = OFFCHAIN_ATTESTATION_VERSION, oa_schema = schema,
            oa_recipient = recipient, oa_time = now, oa_expirationTime = expirationTime,
            oa_revocable = revocable, oa_refUID = refUID, oa_data = data\<rparr> signer =
         Inr response"
    and "soa_uid response = uid"
    and "w_verifyOffchainAttestationSignature W
           (h @ [Call_getOffchain, Call_latest,
                 Call_signOffchainAttestation offchain
                   \<lparr>oa_version = OFFCHAIN_ATTESTATION_VERSION, oa_schema = schema,
                    oa_recipient = recipient, oa_time = now,
                    oa_expirationTime = expirationTime, oa_revocable = revocable,
                    oa_refUID = refUID, oa_data = data\<rparr> signer])
           offchain (address signer) response = Inr True"
  shows "expectAttestation_Offchain W schema recipient expirationTime revocable refUID data
           signer h =
         (h @ [Call_getOffchain, Call_latest,
               Call_signOffchainAttestation offchain
                 \<lparr>oa_version = OFFCHAIN_ATTESTATION_VERSION, oa_schema = schema,
                  oa_recipient = recipient, oa_time = now,
                  oa_expirationTime = expirationTime, oa_revocable = revocable,
                  oa_refUID = refUID, oa_data = data\<rparr> signer,
               Call_verifyOffchainAttestationSignature offchain (address signer) response],
          Inr (Return uid))"
  unfolding expectAttestation_Offchain_def call_defs
  by (simp only: andThen_perform_eq andThen_pure_call_eq andThen_expect_true_eq
      andThen_expect_equal_eq assms sum.case append_assoc append.simps if_True refl ret_def)

text \<open>
  C5. The offchain signer modelled from the spec returns, with the signature, the UID
  derived from exactly the fields it signs, and those fields are the message of its
  response. Run against this signer (with the verifier and \<^verbatim>\<open>getOffchainUID\<close> of the
  same model), the offchain case of \<^verbatim>\<open>expectAttestation\<close> passes its expectation that
  the UID of the response equals \<^verbatim>\<open>getOffchainUID\<close> of the same eight fields: when the
  ledger answers the two queries before the signing and the raw signature recovers the
  signer's address, the run makes its four calls and returns that UID.
\<close>

theorem offchain_uid_consistent:
  assumes "w_getOffchain W h = Inr offchain"
    and "w_latest W (h @ [Call_getOffchain]) = Inr now"
    and "recover (offchain_fields schema request now)
           (sign (offchain_fields schema request now) (o_from options)) =
         address (o_from options)"
  shows
    "soa_uid (spec_signOffchainAttestation deriveUID sign params signer) = deriveUID params \<and>
     soa_message (spec_signOffchainAttestation deriveUID sign params signer) = params \<and>
     expectAttestation (with_spec_offchain deriveUID sign recover W) schema request
         (options\<lparr>o_signatureType := Some Offchain\<rparr>) h =
       (h @ [Call_getOffchain, Call_latest,
             Call_signOffchainAttestation offchain (offchain_fields schema request now)
               (o_from options),
             Call_verifyOffchainAttestationSignature offchain (address (o_from options))
               (spec_signOffchainAttestation deriveUID sign (offchain_fields schema request now)
                  (o_from options))],
        Inr (deriveUID (offchain_fields schema request now)))"
proof -
  let ?W = "with_spec_offchain deriveUID sign recover W"
  let ?ps = "offchain_fields schema request now"
  let ?response = "spec_signOffchainAttestation deriveUID sign ?ps (o_from options)"
  have w: "w_getOffchain ?W = w_getOffchain W" "w_latest ?W = w_latest W"
    by (simp_all add: with_spec_offchain_def)
  have v: "spec_verifyOffchainAttestationSignature deriveUID recover (address (o_from options))
      ?response"
    using assms(3)
    by (simp add: spec_verifyOffchainAttestationSignature_def spec_signOffchainAttestation_def)
  have b: "expectAttestation_Offchain ?W schema (ard_recipient request)
      (case ard_expirationTime request of None \<Rightarrow> NO_EXPIRATION | Some e \<Rightarrow> e)
      (case ard_revocable request of None \<Rightarrow> True | Some r \<Rightarrow> r)
      (case ard_refUID request of None \<Rightarrow> ZERO_BYTES32 | Some u \<Rightarrow> u)
      (ard_data request) (o_from options) h =
    (h @ [Call_getOffchain, Call_latest,
          Call_signOffchainAttestation offchain ?ps (o_from options),
          Call_verifyOffchainAttestationSignature offchain (address (o_from options)) ?response],
     Inr (Return (deriveUID ?ps)))"
    unfolding offchain_fields_def
    by (rule expectAttestation_Offchain_run [where response =
          "spec_signOffchainAttestation deriveUID sign
             \<lparr>oa_version = OFFCHAIN_ATTESTATION_VERSION, oa_schema = schema,
              oa_recipient = ard_recipient request, oa_time = now,
              oa_expirationTime = (case ard_expirationTime request of
                                     None \<Rightarrow> NO_EXPIRATION | Some e \<Rightarrow> e),
              oa_revocable = (case ard_revocable request of None \<Rightarrow> True | Some r \<Rightarrow> r),
              oa_refUID = (case ard_refUID request of None \<Rightarrow> ZERO_BYTES32 | Some u \<Rightarrow> u),
              oa_data = ard_data request\<rparr> (o_from options)"])
      (use assms(1,2) v in \<open>simp_all add: w, simp_all add: with_spec_offchain_def
          spec_signOffchainAttestation_def offchain_fields_def\<close>)
  have "expectAttestation ?W schema request (options\<lparr>o_signatureType := Some Offchain\<rparr>) h =
      (h @ [Call_getOffchain, Call_latest,
          Call_signOffchainAttestation offchain ?ps (o_from options),
          Call_verifyOffchainAttestationSignature offchain (address (o_from options)) ?response],
       Inr (deriveUID ?ps))"
    by (simp add: expectAttestation_def Let_def andThen_def b ret_def)
  then show ?thesis
    by (simp add: spec_signOffchainAttestation_def)
qed

text \<open>The offchain attestation of the example request on the example ledger.\<close>

theorem offchain_uid_consistent_example:
  "expectAttestation
       (with_spec_offchain example_uid (\<lambda>params signer. example_signature)
          (\<lambda>params signature. ''0xA11CE'')
          (example_world None 7 example_tx [] ''0xA11CE''))
       ''0x5c'' example_request (example_options\<lparr>o_signatureType := Some Offchain\<rparr>) [] =
     ([Call_getOffchain, Call_latest,
       Call_signOffchainAttestation 2 (offchain_fields ''0x5c'' example_request 1000)
         example_wallet,
       Call_verifyOffchainAttestationSignature 2 ''0xA11CE''
         \<lparr>soa_message = offchain_fields ''0x5c'' example_request 1000,
          soa_signature = example_signature,
          soa_uid = example_uid (offchain_fields ''0x5c'' example_request 1000)\<rparr>],
      Inr (example_uid (offchain_fields ''0x5c'' example_request 1000)))"
proof -
  let ?W = "example_world None 7 example_tx [] ''0xA11CE''"
  have 1: "w_getOffchain ?W [] = Inr 2"
    by (simp add: example_world_def)
  have 2: "w_latest ?W ([] @ [Call_getOffchain]) = Inr 1000"
    by (simp add: example_world_def)
  have f: "o_from example_options = example_wallet" "address example_wallet = ''0xA11CE''"
    by (simp_all add: example_options_def example_wallet_def)
  have 3: "''0xA11CE'' = address (o_from example_options)"
    by (simp add: f)
  note t = offchain_uid_consistent [of ?W "[]" 2 1000 "\<lambda>params signature. ''0xA11CE''"
      "''0x5c''" example_request "\<lambda>params signer. example_signature" example_options
      example_uid "offchain_fields ''0x5c'' example_request 1000" example_wallet, OF 1 2 3]
  then show ?thesis
    unfolding f spec_signOffchainAttestation_def by simp
qed

text \<open>
  C6. The offchain verifier modelled from the spec recomputes the UID from the message of
  the response and accepts only if it equals the embedded UID and the signature recovers
  the claimed address. A response as the signer produced it is accepted; the same response
  with its UID replaced by a different one is rejected, although its signature still
  recovers the claimed address.
\<close>

theorem offchain_verify_fails_closed:
  assumes "u \<noteq> deriveUID params"
    and "recover params (sign params signer) = address signer"
  shows
    "spec_verifyOffchainAttestationSignature deriveUID recover (address signer)
       (spec_signOffchainAttestation deriveUID sign params signer) \<and>
     \<not> spec_verifyOffchainAttestationSignature deriveUID recover (address signer)
       ((spec_signOffchainAttestation deriveUID sign params signer)\<lparr>soa_uid := u\<rparr>) \<and>
     recover (soa_message ((spec_signOffchainAttestation deriveUID sign params signer)
                \<lparr>soa_uid := u\<rparr>))
       (soa_signature ((spec_signOffchainAttestation deriveUID sign params signer)
                \<lparr>soa_uid := u\<rparr>)) = address signer \<and>
     spec_verifyOffchainAttestationSignature deriveUID recover claimed response =
       (soa_uid response = deriveUID (soa_message response) \<and>
        recover (soa_message response) (soa_signature response) = claimed)"
  using assms
  by (simp add: spec_verifyOffchainAttestationSignature_def spec_signOffchainAttestation_def)

text \<open>The signed example request, and the same response with the UID "0xbad".\<close>

theorem offchain_verify_fails_closed_example:
  "''0xbad'' \<noteq> example_uid (offchain_fields ''0x5c'' example_request 1000) \<and>
   spec_verifyOffchainAttestationSignature example_uid (\<lambda>params signature. ''0xA11CE'')
     ''0xA11CE''
     (spec_signOffchainAttestation example_uid (\<lambda>params signer. example_signature)
        (offchain_fields ''0x5c'' example_request 1000) example_wallet) \<and>
   \<not> spec_verifyOffchainAttestationSignature example_uid (\<lambda>params signature. ''0xA11CE'')
     ''0xA11CE''
     ((spec_signOffchainAttestation example_uid (\<lambda>params signer. example_signature)
        (offchain_fields ''0x5c'' example_request 1000) example_wallet)
        \<lparr>soa_uid := ''0xbad''\<rparr>)"
proof -
  have u: "''0xbad'' \<noteq> example_uid (offchain_fields ''0x5c'' example_request 1000)"
    by (simp add: example_uid_def offchain_fields_def example_request_def)
  have a: "address example_wallet = ''0xA11CE''"
    by (simp add: example_wallet_def)
  have r: "''0xA11CE'' = address example_wallet"
    unfolding a by (rule refl)
  note t = offchain_verify_fails_closed [of "''0xbad''" example_uid
      "offchain_fields ''0x5c'' example_request 1000" "\<lambda>params signature. ''0xA11CE''"
      "\<lambda>params signer. example_signature" example_wallet "''0xA11CE''"
      "spec_signOffchainAttestation example_uid (\<lambda>params signer. example_signature)
        (offchain_fields ''0x5c'' example_request 1000) example_wallet", OF u r, unfolded a]
  from t u show ?thesis by blast
qed

end
